theory Spec2Isabelle
  imports Complex_Main "HOL-Library.AList" "HOL-Library.Multiset" "HOL-Library.Sublist"
begin

section \<open>Characters (character.py, base_types.py)\<close>

text \<open>
  A \<open>Character\<close> object carries the attributes set by \<open>BaseCharacter.__init__\<close> and
  \<open>Character.__init__\<close>. Python compares the objects by identity (\<open>in\<close>, \<open>list.remove\<close>),
  so the record has an \<open>ident\<close> field standing for the object's identity. Python integers
  are unbounded: \<open>int\<close>.
\<close>

record status_effect =
  prevents_healing :: bool

record character =
  ident :: nat
  name :: string
  variant :: string
  cost :: int
  atk :: int
  def_val :: int
  max_health :: int
  current_health :: int
  effect :: string
  energy :: int
  ultimate_energy_cost :: int
  ultimate_damage :: int
  status_effects :: "status_effect list"

text \<open>
  \<open>take_damage\<close>: \<open>actual_damage = min(amount, self.current_health)\<close>,
  \<open>self.current_health -= actual_damage\<close>, \<open>return actual_damage\<close>.
  The model returns the value and the updated character.
\<close>

definition take_damage :: "character \<Rightarrow> int \<Rightarrow> int \<times> character" where
  "take_damage c amount =
     (let actual_damage = min amount (current_health c)
      in (actual_damage, c\<lparr>current_health := current_health c - actual_damage\<rparr>))"

text \<open>\<open>is_alive\<close>: \<open>return self.current_health > 0\<close>.\<close>

definition is_alive :: "character \<Rightarrow> bool" where
  "is_alive c = (current_health c > 0)"

text \<open>\<open>heal\<close>: \<open>self.def_val = min(self.def_val, self.def_val + amount)\<close>.\<close>

definition heal :: "character \<Rightarrow> int \<Rightarrow> character" where
  "heal c amount = c\<lparr>def_val := min (def_val c) (def_val c + amount)\<rparr>"

text \<open>\<open>add_energy\<close>: \<open>self.energy = min(self.energy + 1, 10)\<close>.\<close>

definition add_energy :: "character \<Rightarrow> character" where
  "add_energy c = c\<lparr>energy := min (energy c + 1) 10\<rparr>"

text \<open>
  \<open>regenerate_health\<close>: full heal when the character is alive and no status effect
  prevents healing (\<open>any(effect for effect in self.status_effects if effect.prevents_healing)\<close>).
\<close>

definition regenerate_health :: "character \<Rightarrow> character" where
  "regenerate_health c =
     (if is_alive c \<and> \<not> list_ex prevents_healing (status_effects c)
      then c\<lparr>current_health := max_health c\<rparr> else c)"

text \<open>
  \<open>use_ultimate\<close>: with enough energy the cost is debited and the target takes
  \<open>self.ultimate_damage\<close>; otherwise the method returns 0 and changes nothing.
  The caller and the target are different objects; the model returns the damage, the
  updated caller and the updated target.
\<close>

definition use_ultimate :: "character \<Rightarrow> character \<Rightarrow> int \<times> character \<times> character" where
  "use_ultimate self target =
     (if energy self \<ge> ultimate_energy_cost self
      then (let self' = self\<lparr>energy := energy self - ultimate_energy_cost self\<rparr>;
                (d, target') = take_damage target (ultimate_damage self')
            in (d, self', target'))
      else (0, self, target))"

text \<open>
  \<open>Character.__init__\<close>: energy 0, health and maximal health equal to \<open>def_\<close>, no status
  effect. \<open>self.ultimate_damage\<close> is what \<open>parse_ultimate_damage\<close> computes from the
  ability tables (\<open>int(atk * multiplier)\<close>, or \<open>atk\<close> for a name without an entry); the
  model takes it as the argument \<open>udmg\<close>.
\<close>

definition Character_init ::
  "nat \<Rightarrow> string \<Rightarrow> string \<Rightarrow> int \<Rightarrow> int \<Rightarrow> int \<Rightarrow> int \<Rightarrow> int \<Rightarrow> character" where
  "Character_init i n v c a d ucost udmg =
     \<lparr>ident = i, name = n, variant = v, cost = c, atk = a, def_val = d, max_health = d,
      current_health = d, effect = [], energy = 0, ultimate_energy_cost = ucost,
      ultimate_damage = udmg, status_effects = []\<rparr>"

section \<open>Ultimate lookup (ultimate_abilities.py)\<close>

datatype py_error =
  TypeError | KeyError | ValueError | IndexError | ZeroDivisionError | OverflowError

datatype pyval = Str string | Num rat | StrList "string list" | Effects "(string \<times> rat) list"

record ultimate_ability =
  ua_name :: pyval
  damage_multiplier :: pyval
  effects :: pyval

text \<open>
  \<open>UltimateAbility.__init__(self, name, damage_multiplier=1.0, effects=None)\<close>, called with
  keyword arguments only. Python raises \<open>TypeError\<close> for a keyword that is not a parameter
  and for a missing \<open>name\<close>; \<open>effects or {}\<close> replaces a missing value by the empty dict.
\<close>

definition UltimateAbility :: "(string \<times> pyval) list \<Rightarrow> py_error + ultimate_ability" where
  "UltimateAbility kwargs =
     (if list_ex (\<lambda>kw. fst kw \<notin> set [''name'', ''damage_multiplier'', ''effects'']) kwargs
      then Inl TypeError
      else (case map_of kwargs ''name'' of
              None \<Rightarrow> Inl TypeError
            | Some n \<Rightarrow>
                Inr \<lparr>ua_name = n,
                     damage_multiplier =
                       (case map_of kwargs ''damage_multiplier'' of None \<Rightarrow> Num 1 | Some m \<Rightarrow> m),
                     effects =
                       (case map_of kwargs ''effects'' of None \<Rightarrow> Effects [] | Some e \<Rightarrow> e)\<rparr>))"

text \<open>
  The module-level \<open>get_ultimate_ability(character_name, variant)\<close> that battle.py imports.
  It first builds the dict literal \<open>ultimate_abilities\<close>, whose three values are
  constructor calls evaluated in order, each passing \<open>cooldown=...\<close>; only then does it
  look up \<open>ultimate_abilities.get(character_name, {}).get(variant)\<close>.
\<close>

definition get_ultimate_ability :: "string \<Rightarrow> string \<Rightarrow> py_error + ultimate_ability option" where
  "get_ultimate_ability character_name variant' =
     (case UltimateAbility [(''name'', Str ''Hollow Purple''), (''damage_multiplier'', Num (5 / 2)),
                            (''cooldown'', Num 3)] of
        Inl e \<Rightarrow> Inl e
      | Inr gojo \<Rightarrow>
     (case UltimateAbility [(''name'', Str ''Black Flash''), (''damage_multiplier'', Num 2),
                            (''cooldown'', Num 2)] of
        Inl e \<Rightarrow> Inl e
      | Inr yuji \<Rightarrow>
     (case UltimateAbility [(''name'', Str ''Divine Dogs''), (''damage_multiplier'', Num (9 / 5)),
                            (''status_effects'', StrList [''Bind'']), (''cooldown'', Num 2)] of
        Inl e \<Rightarrow> Inl e
      | Inr megumi \<Rightarrow>
          Inr (case map_of [(''Gojo Satoru'', [(''Standard'', gojo)]),
                            (''Yuji Itadori'', [(''Standard'', yuji)]),
                            (''Megumi Fushiguro'', [(''Standard'', megumi)])] character_name of
                 None \<Rightarrow> None
               | Some variants \<Rightarrow> map_of variants variant'))))"

type_synonym ultimate_lookup = "string \<Rightarrow> string \<Rightarrow> py_error + ultimate_ability option"

section \<open>Deck and player state (deck.py, player.py)\<close>

record deck =
  cards :: "character list"
  graveyard :: "character list"

text \<open>\<open>Deck.draw(count)\<close>: up to \<open>count\<close> cards from the front; \<open>[]\<close> on an empty deck.\<close>

definition draw :: "deck \<Rightarrow> nat \<Rightarrow> character list \<times> deck" where
  "draw d count' =
     (if cards d = [] then ([], d)
      else (let n = min count' (length (cards d))
            in (take n (cards d), d\<lparr>cards := drop n (cards d)\<rparr>)))"

definition cards_remaining :: "deck \<Rightarrow> nat" where
  "cards_remaining d = length (cards d)"

text \<open>\<open>Deck.send_to_graveyard(card)\<close>: \<open>self.graveyard.append(card)\<close>.\<close>

definition send_to_graveyard :: "deck \<Rightarrow> character \<Rightarrow> deck" where
  "send_to_graveyard d c = d\<lparr>graveyard := graveyard d @ [c]\<rparr>"

record player =
  player_name :: string
  player_deck :: deck
  hand :: "character list"
  field :: "character list"
  life_points :: int
  player_energy :: int
  max_energy :: int

text \<open>\<open>Player.draw_cards(count)\<close>: the drawn cards are appended to the hand.\<close>

definition draw_cards :: "player \<Rightarrow> nat \<Rightarrow> bool \<times> player" where
  "draw_cards p count' =
     (let (drawn, d') = draw (player_deck p) count';
          p' = p\<lparr>player_deck := d'\<rparr>
      in if drawn \<noteq> [] then (True, p'\<lparr>hand := hand p' @ drawn\<rparr>) else (False, p'))"

text \<open>
  \<open>Player.__init__(name, deck)\<close>: empty hand and field, 2000 life points, 0 energy, then
  \<open>self.draw_cards(5)\<close>.
\<close>

definition Player_init :: "string \<Rightarrow> deck \<Rightarrow> player" where
  "Player_init n d =
     snd (draw_cards \<lparr>player_name = n, player_deck = d, hand = [], field = [],
                      life_points = 2000, player_energy = 0, max_energy = 10\<rparr> 5)"

text \<open>
  \<open>Player.play_card(character)\<close>: when the card is in the hand, its cost is at most the
  player's energy and the field has fewer than 5 cards, the card moves from the hand
  (\<open>list.remove\<close>: the first equal element) to the end of the field and the energy is debited.
\<close>

definition play_card :: "player \<Rightarrow> character \<Rightarrow> bool \<times> player" where
  "play_card p c =
     (if c \<in> set (hand p) \<and> cost c \<le> player_energy p \<and> length (field p) < 5
      then (True, p\<lparr>hand := remove1 c (hand p),
                     field := field p @ [c],
                     player_energy := player_energy p - cost c\<rparr>)
      else (False, p))"

text \<open>\<open>Player.take_damage(amount)\<close>: \<open>self.life_points = max(0, self.life_points - amount)\<close>.\<close>

definition player_take_damage :: "player \<Rightarrow> int \<Rightarrow> player" where
  "player_take_damage p amount = p\<lparr>life_points := max 0 (life_points p - amount)\<rparr>"

text \<open>\<open>Player.add_energy(amount=1)\<close>: \<open>self.energy = min(self.max_energy, self.energy + amount)\<close>.\<close>

definition player_add_energy :: "player \<Rightarrow> int \<Rightarrow> player" where
  "player_add_energy p amount = p\<lparr>player_energy := min (max_energy p) (player_energy p + amount)\<rparr>"

section \<open>Battle engine (battle.py)\<close>

text \<open>
  Python dicts are association lists here (\<open>map_of\<close> reads, \<open>AList.update\<close> writes: an
  existing key keeps its place, a new key goes to the end). The battle log keeps one entry
  per message the engine appends.
\<close>

datatype log_entry =
    Plays string string
  | FailedToPlay string
  | UsesUltimate string string int
  | Attacks string string int
  | AttacksDirectly string int
  | CombatFailed string
  | CharacterAttacks string string
  | DamageDealt int
  | RemainingHP string int

record card_tracker =
  damage_dealt :: int
  times_played :: int
  kills :: int

record ability_usage =
  abilities_used :: "string list"
  times_used :: int

text \<open>
  The \<open>damage_stats\<close> dict holds the three per-card buckets under their names
  (\<open>direct_damage\<close>, \<open>ultimate_damage\<close>, \<open>effect_damage\<close>) and the integer
  \<open>total_damage\<close>, kept as a field of its own.
\<close>

record battle =
  player1 :: player
  player2 :: player
  damage_stats :: "(string \<times> (string \<times> int) list) list"
  total_damage :: int
  card_damage_tracker :: "(string \<times> card_tracker) list"
  ability_usage_tracker :: "(string \<times> ability_usage) list"
  battle_log :: "log_entry list"
  current_turn :: nat
  placements_this_turn :: "(string \<times> int) list"

text \<open>
  \<open>Battle.__init__\<close>. The card names come from a Python set of the names in both decks, whose
  iteration order is unspecified; the model takes them in deck order without repetition.
\<close>

definition Battle_init :: "player \<Rightarrow> player \<Rightarrow> battle" where
  "Battle_init p1 p2 =
     (let all_cards = remdups (map name (cards (player_deck p1) @ cards (player_deck p2)))
      in \<lparr>player1 = p1\<lparr>life_points := 2000, player_energy := 1\<rparr>,
          player2 = p2\<lparr>life_points := 2000, player_energy := 1\<rparr>,
          damage_stats = [(''direct_damage'', map (\<lambda>n. (n, 0)) all_cards),
                          (''ultimate_damage'', map (\<lambda>n. (n, 0)) all_cards),
                          (''effect_damage'', map (\<lambda>n. (n, 0)) all_cards)],
          total_damage = 0,
          card_damage_tracker =
            map (\<lambda>n. (n, \<lparr>damage_dealt = 0, times_played = 0, kills = 0\<rparr>)) all_cards,
          ability_usage_tracker =
            map (\<lambda>n. (n, \<lparr>abilities_used = [], times_used = 0\<rparr>)) all_cards,
          battle_log = [],
          current_turn = 1,
          placements_this_turn = [(''Player 1'', 0), (''Player 2'', 0)]\<rparr>)"

text \<open>\<open>_update_damage_stats(attacker_name, damage, damage_type)\<close>.\<close>

definition update_damage_stats :: "battle \<Rightarrow> string \<Rightarrow> int \<Rightarrow> string \<Rightarrow> battle" where
  "update_damage_stats b attacker_name damage damage_type =
     (if damage \<le> 0 then b
      else (let bucket = (case map_of (damage_stats b) damage_type of None \<Rightarrow> [] | Some m \<Rightarrow> m);
                old = (case map_of bucket attacker_name of None \<Rightarrow> 0 | Some v \<Rightarrow> v);
                b1 = b\<lparr>damage_stats :=
                         AList.update damage_type
                           (AList.update attacker_name (old + damage) bucket) (damage_stats b),
                       total_damage := total_damage b + damage\<rparr>
            in if damage_type = ''ultimate_damage''
               then (let u = (case map_of (ability_usage_tracker b1) attacker_name of
                                None \<Rightarrow> \<lparr>abilities_used = [], times_used = 0\<rparr>
                              | Some u \<Rightarrow> u)
                     in b1\<lparr>ability_usage_tracker :=
                             AList.update attacker_name (u\<lparr>times_used := times_used u + 1\<rparr>)
                               (ability_usage_tracker b1)\<rparr>)
               else b1))"

text \<open>
  \<open>process_turn\<close> and \<open>_process_actions\<close> receive the two player objects of the battle as
  \<open>active_player\<close> and \<open>opponent\<close>; the model names the side that is active.
\<close>

datatype side = P1 | P2

fun other :: "side \<Rightarrow> side" where
  "other P1 = P2"
| "other P2 = P1"

fun get_player :: "side \<Rightarrow> battle \<Rightarrow> player" where
  "get_player P1 b = player1 b"
| "get_player P2 b = player2 b"

fun set_player :: "side \<Rightarrow> player \<Rightarrow> battle \<Rightarrow> battle" where
  "set_player P1 p b = b\<lparr>player1 := p\<rparr>"
| "set_player P2 p b = b\<lparr>player2 := p\<rparr>"

text \<open>
  Python's \<open>max(xs, key=f)\<close> returns the first element with the greatest key. \<open>max_index\<close>
  is its position. Every call in the engine is guarded by a test that the list is not empty.
\<close>

fun max_from :: "('a \<Rightarrow> int) \<Rightarrow> 'a list \<Rightarrow> nat \<Rightarrow> nat \<Rightarrow> int \<Rightarrow> nat" where
  "max_from key [] i best best_key = best"
| "max_from key (x # xs) i best best_key =
     (if key x > best_key then max_from key xs (Suc i) i (key x)
      else max_from key xs (Suc i) best best_key)"

definition max_index :: "('a \<Rightarrow> int) \<Rightarrow> 'a list \<Rightarrow> nat" where
  "max_index key xs = (case xs of [] \<Rightarrow> 0 | x # rest \<Rightarrow> max_from key rest 1 0 (key x))"

text \<open>
  One pass of the play loop of \<open>_process_actions\<close> (the body of
  \<open>for card in playable_cards[:2]\<close>). The result of \<open>play_card\<close> is not read. A
  \<open>KeyError\<close> on \<open>placements_this_turn[active_player.name]\<close> is caught by the
  \<open>except\<close> branch, which logs and goes on to the next card.
\<close>

definition play_one :: "side \<Rightarrow> character \<Rightarrow> battle \<Rightarrow> battle" where
  "play_one s c b =
     (let ap = get_player s b
      in if player_energy ap \<ge> cost c \<and> length (field ap) < 5
         then (let ap' = snd (play_card ap c);
                   b1 = set_player s ap' b
               in (case map_of (placements_this_turn b1) (player_name ap') of
                     None \<Rightarrow> b1\<lparr>battle_log := battle_log b1 @ [FailedToPlay (name c)]\<rparr>
                   | Some k \<Rightarrow>
                       (let b2 = b1\<lparr>placements_this_turn :=
                                      AList.update (player_name ap') (k + 1) (placements_this_turn b1)\<rparr>;
                            b3 = (case map_of (card_damage_tracker b2) (name c) of
                                    None \<Rightarrow> b2
                                  | Some t \<Rightarrow>
                                      b2\<lparr>card_damage_tracker :=
                                           AList.update (name c) (t\<lparr>times_played := times_played t + 1\<rparr>)
                                             (card_damage_tracker b2)\<rparr>)
                        in b3\<lparr>battle_log := battle_log b3 @ [Plays (player_name ap') (name c)]\<rparr>)))
         else b)"

text \<open>The play phase: the first two hand cards whose cost is at most the player's energy.\<close>

definition playable_cards :: "player \<Rightarrow> character list" where
  "playable_cards p = filter (\<lambda>c. cost c \<le> player_energy p) (hand p)"

definition play_phase :: "side \<Rightarrow> battle \<Rightarrow> battle" where
  "play_phase s b = fold (play_one s) (take 2 (playable_cards (get_player s b))) b"

text \<open>
  The regular attack of the attacker at position \<open>i\<close> of the active field, followed by
  \<open>attacker.add_energy()\<close>.
\<close>

definition regular_combat :: "side \<Rightarrow> nat \<Rightarrow> battle \<Rightarrow> battle" where
  "regular_combat s i b =
     (let opp = get_player (other s) b;
          attacker = field (get_player s b) ! i;
          b1 = (if field opp \<noteq> []
                then (let j = max_index atk (field opp);
                          target = field opp ! j;
                          damage = atk attacker;
                          (actual_damage, target') = take_damage target damage;
                          b' = set_player (other s) (opp\<lparr>field := (field opp)[j := target']\<rparr>) b;
                          b'' = update_damage_stats b' (name attacker) actual_damage ''direct_damage''
                      in b''\<lparr>battle_log := battle_log b'' @
                                [Attacks (name attacker) (name target) actual_damage]\<rparr>)
                else (let damage = atk attacker;
                          b' = set_player (other s) (player_take_damage opp damage) b;
                          b'' = update_damage_stats b' (name attacker) damage ''direct_damage''
                      in b''\<lparr>battle_log := battle_log b'' @
                                [AttacksDirectly (name attacker) damage]\<rparr>));
          ap1 = get_player s b1
      in set_player s (ap1\<lparr>field := (field ap1)[i := add_energy (field ap1 ! i)]\<rparr>) b1)"

text \<open>
  \<open>process_character_combat(attacker, defender)\<close>, the engine's combat between two
  characters: the defender takes the attacker's \<open>atk\<close>, the damage is recorded and three
  lines are logged. The method takes any two character objects; the model takes the attacker
  at position \<open>i\<close> of the field of side \<open>s\<close> and the defender at position \<open>j\<close> of the
  other field.
\<close>

definition process_character_combat :: "side \<Rightarrow> nat \<Rightarrow> nat \<Rightarrow> battle \<Rightarrow> battle" where
  "process_character_combat s i j b =
     (let opp = get_player (other s) b;
          attacker = field (get_player s b) ! i;
          defender = field opp ! j;
          damage = atk attacker;
          (actual_damage, defender') = take_damage defender damage;
          b1 = set_player (other s) (opp\<lparr>field := (field opp)[j := defender']\<rparr>) b;
          b2 = update_damage_stats b1 (name attacker) actual_damage ''direct_damage''
      in b2\<lparr>battle_log := battle_log b2 @
               [CharacterAttacks (name attacker) (name defender), DamageDealt actual_damage,
                RemainingHP (name defender) (current_health defender')]\<rparr>)"

text \<open>
  The body of \<open>for attacker in active_player.field\<close>, for the attacker at position \<open>i\<close>.
  An exception raised inside the \<open>try\<close> (here: by the lookup) is caught, logged, and the loop
  goes on to the next attacker.
\<close>

definition combat_one :: "ultimate_lookup \<Rightarrow> side \<Rightarrow> nat \<Rightarrow> battle \<Rightarrow> battle" where
  "combat_one gu s i b =
     (let ap = get_player s b;
          opp = get_player (other s) b;
          attacker = field ap ! i
      in (case gu (name attacker) (variant attacker) of
            Inl e \<Rightarrow> b\<lparr>battle_log := battle_log b @ [CombatFailed (name attacker)]\<rparr>
          | Inr ultimate \<Rightarrow>
              if ultimate \<noteq> None \<and> field opp \<noteq> [] \<and> energy attacker \<ge> ultimate_energy_cost attacker
              then (let j = max_index current_health (field opp);
                        target = field opp ! j;
                        (damage, attacker', target') = use_ultimate attacker target;
                        b1 = set_player s (ap\<lparr>field := (field ap)[i := attacker']\<rparr>)
                               (set_player (other s) (opp\<lparr>field := (field opp)[j := target']\<rparr>) b)
                    in if damage > 0
                       then (let b2 = update_damage_stats b1 (name attacker') damage ''ultimate_damage''
                             in b2\<lparr>battle_log := battle_log b2 @
                                      [UsesUltimate (name attacker') (name target) damage]\<rparr>)
                       else regular_combat s i b1)
              else regular_combat s i b))"

definition combat_phase :: "ultimate_lookup \<Rightarrow> side \<Rightarrow> battle \<Rightarrow> battle" where
  "combat_phase gu s b = fold (combat_one gu s) [0..<length (field (get_player s b))] b"

text \<open>\<open>_process_actions(active_player, opponent)\<close>: the play phase, then the combat phase.\<close>

definition process_actions :: "ultimate_lookup \<Rightarrow> side \<Rightarrow> battle \<Rightarrow> battle" where
  "process_actions gu s b = combat_phase gu s (play_phase s b)"

text \<open>
  \<open>process_turn(active_player, opponent)\<close>: draw, energy gain, actions, regeneration of the
  active field; returns whether the opponent's life points are down to 0.
\<close>

definition process_turn :: "ultimate_lookup \<Rightarrow> side \<Rightarrow> battle \<Rightarrow> bool \<times> battle" where
  "process_turn gu s b =
     (let ap = get_player s b;
          b1 = (if cards_remaining (player_deck ap) > 0
                then set_player s (snd (draw_cards ap 1)) b else b);
          b2 = set_player s (player_add_energy (get_player s b1) 1) b1;
          b3 = process_actions gu s b2;
          ap3 = get_player s b3;
          b4 = set_player s (ap3\<lparr>field := map regenerate_health (field ap3)\<rparr>) b3
      in (life_points (get_player (other s) b4) \<le> 0, b4))"

text \<open>No step of a turn writes the turn counter.\<close>

lemma current_turn_set_player [simp]: "current_turn (set_player s p b) = current_turn b"
  by (cases s) simp_all

lemma current_turn_update_damage_stats [simp]:
  "current_turn (update_damage_stats b n d t) = current_turn b"
  by (simp add: update_damage_stats_def Let_def)

lemma current_turn_play_one [simp]: "current_turn (play_one s c b) = current_turn b"
  by (simp add: play_one_def Let_def split: option.splits)

lemma current_turn_play_phase [simp]: "current_turn (play_phase s b) = current_turn b"
proof -
  have "current_turn (fold (play_one s) cs b) = current_turn b" for cs
    by (induction cs arbitrary: b) simp_all
  then show ?thesis by (simp add: play_phase_def)
qed

lemma current_turn_regular_combat [simp]: "current_turn (regular_combat s i b) = current_turn b"
  by (simp add: regular_combat_def Let_def split: prod.splits)

lemma current_turn_combat_one [simp]: "current_turn (combat_one gu s i b) = current_turn b"
  by (simp add: combat_one_def Let_def split: prod.splits sum.splits)

lemma current_turn_combat_phase [simp]: "current_turn (combat_phase gu s b) = current_turn b"
proof -
  have "current_turn (fold (combat_one gu s) is b) = current_turn b" for "is"
    by (induction "is" arbitrary: b) simp_all
  then show ?thesis by (simp add: combat_phase_def)
qed

lemma current_turn_process_turn [simp]:
  "current_turn (snd (process_turn gu s b)) = current_turn b"
  by (simp add: process_turn_def process_actions_def Let_def)

text \<open>
  \<open>simulate_battle\<close>: the loop \<open>while self.current_turn <= max_turns\<close> with
  \<open>max_turns = 50\<close>. It returns the winning player (named by its side) and, in the model,
  the state the battle is left in. The loop ends because no step of a turn writes
  \<open>current_turn\<close>, which the lemmas above establish.
\<close>

function simulate_battle :: "ultimate_lookup \<Rightarrow> battle \<Rightarrow> side \<times> battle" where
  "simulate_battle gu b =
     (if current_turn b \<le> 50
      then (let b0 = b\<lparr>placements_this_turn := [(''Player 1'', 0), (''Player 2'', 0)]\<rparr>;
                (won1, b1) = process_turn gu P1 b0
            in if won1 then (P1, b1)
               else (let (won2, b2) = process_turn gu P2 b1
                     in if won2 then (P2, b2)
                        else simulate_battle gu (b2\<lparr>current_turn := current_turn b2 + 1\<rparr>)))
      else (if life_points (player1 b) > life_points (player2 b) then P1 else P2, b))"
  by pat_completeness auto
termination
proof (relation "measure (\<lambda>(gu, b). 51 - current_turn b)", goal_cases)
  case 1
  show ?case by simp
next
  case (2 gu b b0 x won1 b1 y won2 b2)
  have "current_turn b2 = current_turn (snd (process_turn gu P2 b1))"
    using 2 by (metis snd_conv)
  moreover have "current_turn b1 = current_turn (snd (process_turn gu P1 b0))"
    using 2 by (metis snd_conv)
  ultimately have "current_turn b2 = current_turn b" using 2 by simp
  then show ?case using 2 by simp
qed

declare simulate_battle.simps [simp del]

section \<open>Card tables (the pandas DataFrames)\<close>

record card_row =
  Name :: string
  Variant :: string
  Cost :: int
  ATK :: int
  DEF :: int

section \<open>Deck construction (deck.py)\<close>

definition COST_DISTRIBUTION :: "(int \<times> nat) list" where
  "COST_DISTRIBUTION = [(1, 8), (2, 10), (3, 8), (4, 6), (5, 4), (6, 3), (7, 1)]"

definition card_id_of :: "card_row \<Rightarrow> string" where
  "card_id_of c = Name c @ '' ('' @ Variant c @ '')''"

definition choice :: "(nat \<Rightarrow> nat) \<Rightarrow> nat \<Rightarrow> 'a list \<Rightarrow> 'a" where
  "choice rng k xs = xs ! (rng k mod length xs)"

definition lower_char :: "char \<Rightarrow> char" where
  "lower_char ch =
     (let n = (of_char ch :: nat) in if 65 \<le> n \<and> n \<le> 90 then char_of (n + 32) else ch)"

definition lower :: "string \<Rightarrow> string" where
  "lower s = map lower_char s"

definition ultimate_methods :: "string list" where
  "ultimate_methods =
     [''gojo satoru'', ''fushiguro megumi'', ''kugisaki nobara'', ''nanami kento'', ''kenjaku'',
      ''naoya zenin'']"

definition py_int :: "rat \<Rightarrow> int" where
  "py_int x = (if x < 0 then \<lceil>x\<rceil> else \<lfloor>x\<rfloor>)"

type_synonym ultimate_method = "card_row \<Rightarrow> py_error + rat"

definition parse_ultimate_damage :: "ultimate_method \<Rightarrow> card_row \<Rightarrow> py_error + int" where
  "parse_ultimate_damage um c =
     (if lower (Name c) \<in> set ultimate_methods
      then (case um c of Inl e \<Rightarrow> Inl e | Inr m \<Rightarrow> Inr (py_int (of_int (ATK c) * m)))
      else Inr (ATK c))"

definition create_character_from_data ::
  "ultimate_method \<Rightarrow> nat \<Rightarrow> card_row \<Rightarrow> py_error + character" where
  "create_character_from_data um i c =
     (case parse_ultimate_damage um c of
        Inl e \<Rightarrow> Inl e
      | Inr d \<Rightarrow> Inr (Character_init i (Name c) (Variant c) (Cost c) (ATK c) (DEF c) 1 d))"

definition group_by_cost :: "card_row list \<Rightarrow> (int \<times> card_row list) list" where
  "group_by_cost valid_cards =
     fold (\<lambda>c m. let k = min (max (Cost c) 1) 7
                  in AList.update k ((case map_of m k of None \<Rightarrow> [] | Some cs \<Rightarrow> cs) @ [c]) m)
          valid_cards []"

record build_state =
  selected_cards :: "character list"
  card_counts :: "(string \<times> nat) list"
  draws :: nat

definition count_of :: "build_state \<Rightarrow> string \<Rightarrow> nat" where
  "count_of st cid = (case map_of (card_counts st) cid of None \<Rightarrow> 0 | Some n \<Rightarrow> n)"

definition add_card :: "ultimate_method \<Rightarrow> card_row \<Rightarrow> build_state \<Rightarrow> build_state option" where
  "add_card um c st =
     (case create_character_from_data um (length (selected_cards st)) c of
        Inl e \<Rightarrow> None
      | Inr character \<Rightarrow>
          Some (st\<lparr>selected_cards := selected_cards st @ [character],
                  card_counts :=
                    AList.update (card_id_of c) (count_of st (card_id_of c) + 1) (card_counts st)\<rparr>))"

function fill_cost ::
  "(nat \<Rightarrow> nat) \<Rightarrow> ultimate_method \<Rightarrow> card_row list \<Rightarrow> nat \<Rightarrow> nat \<Rightarrow> nat \<Rightarrow> nat
     \<Rightarrow> build_state \<Rightarrow> build_state" where
  "fill_cost rng um cost_cards target_count max_attempts cards_added attempts st =
     (if cards_added < target_count \<and> attempts < max_attempts
      then (let c = choice rng (draws st) cost_cards;
                st1 = st\<lparr>draws := draws st + 1\<rparr>
            in if count_of st1 (card_id_of c) < 3
               then (case add_card um c st1 of
                       Some st2 \<Rightarrow>
                         fill_cost rng um cost_cards target_count max_attempts
                           (cards_added + 1) (attempts + 1) st2
                     | None \<Rightarrow>
                         fill_cost rng um cost_cards target_count max_attempts
                           cards_added (attempts + 1) st1)
               else fill_cost rng um cost_cards target_count max_attempts
                      cards_added (attempts + 1) st1)
      else st)"
  by pat_completeness auto
termination
  by (relation "measure (\<lambda>(rng, um, cost_cards, target_count, max_attempts, cards_added, attempts, st).
                            max_attempts - attempts)") auto

declare fill_cost.simps [simp del]

definition fill_distribution ::
  "(nat \<Rightarrow> nat) \<Rightarrow> ultimate_method \<Rightarrow> (int \<times> card_row list) list \<Rightarrow> build_state \<Rightarrow> build_state" where
  "fill_distribution rng um cards_by_cost st0 =
     fold (\<lambda>(k, target_count) st.
             case map_of cards_by_cost k of
               None \<Rightarrow> st
             | Some cost_cards \<Rightarrow>
                 if cost_cards = [] then st
                 else fill_cost rng um cost_cards target_count (target_count * 3) 0 0 st)
          COST_DISTRIBUTION st0"

partial_function (option) fill_rest ::
  "(nat \<Rightarrow> nat) \<Rightarrow> ultimate_method \<Rightarrow> (int \<times> card_row list) list \<Rightarrow> nat \<Rightarrow> build_state
     \<Rightarrow> build_state option" where
  "fill_rest rng um cards_by_cost size' st =
     (if length (selected_cards st) < size'
      then (let available_costs = sort (map fst cards_by_cost)
            in if available_costs = [] then Some st
               else (let k = choice rng (draws st) available_costs;
                         cost_cards = (case map_of cards_by_cost k of None \<Rightarrow> [] | Some cs \<Rightarrow> cs);
                         c = choice rng (draws st + 1) cost_cards;
                         st1 = st\<lparr>draws := draws st + 2\<rparr>
                     in if count_of st1 (card_id_of c) < 3
                        then (case add_card um c st1 of
                                Some st2 \<Rightarrow> fill_rest rng um cards_by_cost size' st2
                              | None \<Rightarrow> fill_rest rng um cards_by_cost size' st1)
                        else fill_rest rng um cards_by_cost size' st1))
      else Some st)"

definition build_initial_deck ::
  "(nat \<Rightarrow> nat) \<Rightarrow> ultimate_method \<Rightarrow> (character list \<Rightarrow> character list) \<Rightarrow> nat \<Rightarrow> card_row list
     \<Rightarrow> (py_error + character list) option" where
  "build_initial_deck rng um shuffle size' valid_cards =
     (if valid_cards = [] then Some (Inl ValueError)
      else (let cards_by_cost = group_by_cost valid_cards;
                st = fill_distribution rng um cards_by_cost
                       \<lparr>selected_cards = [], card_counts = [], draws = 0\<rparr>
            in case fill_rest rng um cards_by_cost size' st of
                 None \<Rightarrow> None
               | Some st' \<Rightarrow> Some (Inr (shuffle (selected_cards st')))))"

definition saturated :: "(int \<times> card_row list) list \<Rightarrow> build_state \<Rightarrow> bool" where
  "saturated cards_by_cost st =
     list_all (\<lambda>(k, cs). cs \<noteq> [] \<and> list_all (\<lambda>c. 3 \<le> count_of st (card_id_of c)) cs) cards_by_cost"

definition stuck :: "(int \<times> card_row list) list \<Rightarrow> nat \<Rightarrow> build_state \<Rightarrow> bool" where
  "stuck cbc size' st =
     (cbc \<noteq> [] \<and> saturated cbc st \<and> length (selected_cards st) < size')"

definition lone_card :: card_row where
  "lone_card = \<lparr>Name = ''Cursed Doll'', Variant = ''Standard'', Cost = 1, ATK = 100, DEF = 100\<rparr>"

section \<open>Balance simulator (balance_simulator.py)\<close>

text \<open>
  Python floats are modelled as rationals, \<open>float('inf')\<close> apart. The concrete tables
  below stay away from rounding ties and from comparisons that hold with equality, where a
  binary float could differ from the exact quotient.
\<close>

definition COST_DISTRIBUTION_TOLERANCE :: rat where
  "COST_DISTRIBUTION_TOLERANCE = 1 / 10"

definition ULTIMATE_POWER_FACTOR :: rat where
  "ULTIMATE_POWER_FACTOR = 3 / 10"

datatype pyfloat = Fin rat | PosInf

fun py_gt :: "rat \<Rightarrow> pyfloat \<Rightarrow> bool" where
  "py_gt x (Fin y) = (x > y)"
| "py_gt x PosInf = False"

record card_stat =
  plays :: int
  wins :: int
  total_damage' :: "int option"

type_synonym card_stats = "(string \<times> card_stat) list"

record adjustment =
  card_idx :: nat
  cost_adjust :: int
  atk_adjust :: int
  def_adjust :: int

record simulator =
  original_cards :: "card_row list"
  cards_df :: "card_row list"
  target_win_rate :: rat
  win_rate_tolerance :: rat
  best_balance :: "card_row list option"
  best_balance_score :: pyfloat
  current_adjustments :: "adjustment list"

definition BalanceSimulator_init ::
  "card_row list option \<Rightarrow> card_row list \<Rightarrow> rat \<Rightarrow> rat \<Rightarrow> simulator" where
  "BalanceSimulator_init working_file initial_cards_df target tolerance =
     \<lparr>original_cards = initial_cards_df,
      cards_df = (case working_file of None \<Rightarrow> initial_cards_df | Some df \<Rightarrow> df),
      target_win_rate = target, win_rate_tolerance = tolerance,
      best_balance = None, best_balance_score = PosInf, current_adjustments = []\<rparr>"

subsection \<open>Strings and dictionaries\<close>

fun split_first :: "string \<Rightarrow> string \<Rightarrow> string" where
  "split_first sep [] = []"
| "split_first sep (x # xs) =
     (if take (length sep) (x # xs) = sep then [] else x # split_first sep xs)"

definition find_char :: "char \<Rightarrow> string \<Rightarrow> int" where
  "find_char ch s = (if ch \<in> set s then int (length (takeWhile (\<lambda>x. x \<noteq> ch) s)) else - 1)"

definition slice :: "string \<Rightarrow> int \<Rightarrow> int \<Rightarrow> string" where
  "slice s a b =
     (let n = int (length s);
          lo = (if a < 0 then max 0 (n + a) else min a n);
          hi = (if b < 0 then max 0 (n + b) else min b n)
      in take (nat (hi - lo)) (drop (nat lo) s))"

definition name_of_id :: "string \<Rightarrow> string" where
  "name_of_id card_id = split_first '' ('' card_id"

definition variant_of_id :: "string \<Rightarrow> string" where
  "variant_of_id card_id =
     slice card_id (find_char CHR ''('' card_id + 1) (find_char CHR '')'' card_id)"

definition dict_get :: "(int \<times> rat) list \<Rightarrow> int \<Rightarrow> rat" where
  "dict_get m k = (case map_of m k of None \<Rightarrow> 0 | Some v \<Rightarrow> v)"

definition find_card :: "card_row list \<Rightarrow> string \<Rightarrow> string \<Rightarrow> nat option" where
  "find_card df n v =
     (case filter (\<lambda>i. Name (df ! i) = n \<and> Variant (df ! i) = v) [0..<length df] of
        [] \<Rightarrow> None
      | i # _ \<Rightarrow> Some i)"

subsection \<open>Rounding and the cost cap\<close>

definition py_round :: "rat \<Rightarrow> int" where
  "py_round x =
     (let f = \<lfloor>x\<rfloor>; d = x - of_int f
      in if d < 1 / 2 then f else if 1 / 2 < d then f + 1 else if even f then f else f + 1)"

definition round_to_nearest_50 :: "rat \<Rightarrow> int" where
  "round_to_nearest_50 v = max 100 (py_round (v / 50) * 50)"

definition get_max_total_stats :: "int \<Rightarrow> int" where
  "get_max_total_stats c = c * 200"

definition get_cost_distribution :: "card_row list \<Rightarrow> py_error + (int \<times> rat) list" where
  "get_cost_distribution df =
     (if df = [] then Inl ZeroDivisionError
      else Inr (map (\<lambda>k. (k, of_nat (length (filter (\<lambda>r. Cost r = k) df)) / of_nat (length df)))
                  [1, 2, 3, 4, 5, 6]))"

definition scale_row :: "card_row \<Rightarrow> py_error + card_row" where
  "scale_row r =
     (let current_cost = Cost r; current_atk = ATK r; current_def = DEF r;
          total_stats = current_atk + current_def;
          max_allowed = get_max_total_stats current_cost
      in if total_stats > max_allowed
         then (if total_stats = 0
               then Inl (if current_atk = 0 then ValueError else OverflowError)
               else (let scale_factor = of_int max_allowed / of_int total_stats;
                         new_atk = round_to_nearest_50 (of_int current_atk * scale_factor);
                         new_def = round_to_nearest_50 (of_int current_def * scale_factor)
                     in Inr (r\<lparr>ATK := new_atk, DEF := new_def\<rparr>)))
         else Inr r)"

fun normalize_first ::
  "nat \<Rightarrow> card_row list \<Rightarrow> py_error + (card_row list \<times> adjustment list)" where
  "normalize_first idx [] = Inr ([], [])"
| "normalize_first idx (r # rs) =
     (case scale_row r of
        Inl e \<Rightarrow> Inl e
      | Inr r' \<Rightarrow>
          (case normalize_first (idx + 1) rs of
             Inl e \<Rightarrow> Inl e
           | Inr (rs', adjustments) \<Rightarrow>
               Inr (r' # rs',
                    (if ATK r + DEF r > get_max_total_stats (Cost r)
                     then [\<lparr>card_idx = idx, cost_adjust = 0, atk_adjust = ATK r' - ATK r,
                            def_adjust = DEF r' - DEF r\<rparr>]
                     else []) @ adjustments)))"

fun normalize_final :: "card_row list \<Rightarrow> py_error + card_row list" where
  "normalize_final [] = Inr []"
| "normalize_final (r # rs) =
     (case scale_row r of
        Inl e \<Rightarrow> Inl e
      | Inr r' \<Rightarrow> (case normalize_final rs of Inl e \<Rightarrow> Inl e | Inr rs' \<Rightarrow> Inr (r' # rs')))"

subsection \<open>Per-card adjustments\<close>

type_synonym ultimate_power = "card_row \<Rightarrow> rat"

definition evaluate_ultimate_power :: "ultimate_power \<Rightarrow> card_row list \<Rightarrow> string \<Rightarrow> rat" where
  "evaluate_ultimate_power up df card_name =
     (case filter (\<lambda>r. Name r = card_name) df of
        [] \<Rightarrow> 0
      | r # _ \<Rightarrow> if lower (Name r) \<in> set ultimate_methods then up r else 0)"

definition calculate_safe_stat_adjustment ::
  "int \<Rightarrow> int \<Rightarrow> int \<Rightarrow> int \<Rightarrow> int \<Rightarrow> py_error + (int \<times> int)" where
  "calculate_safe_stat_adjustment max_allowed current_atk current_def proposed_atk_adj proposed_def_adj =
     (let new_total = (current_atk + proposed_atk_adj) + (current_def + proposed_def_adj)
      in if new_total > max_allowed
         then (if new_total = 0
               then Inl (if proposed_atk_adj = 0 then ValueError else OverflowError)
               else (let scale_factor = of_int max_allowed / of_int new_total
                     in Inr (round_to_nearest_50
                               (of_int current_atk + of_int proposed_atk_adj * scale_factor)
                               - current_atk,
                             round_to_nearest_50
                               (of_int current_def + of_int proposed_def_adj * scale_factor)
                               - current_def)))
         else Inr (proposed_atk_adj, proposed_def_adj))"

definition cost_change_allowed ::
  "card_row list \<Rightarrow> card_row list \<Rightarrow> int \<Rightarrow> int \<Rightarrow> py_error + bool" where
  "cost_change_allowed df original current_cost moved_cost =
     (case get_cost_distribution df of
        Inl e \<Rightarrow> Inl e
      | Inr dist0 \<Rightarrow>
          (let d1 = AList.update current_cost
                      (dict_get dist0 current_cost - 1 / of_nat (length df)) dist0;
               new_dist = AList.update moved_cost
                      (dict_get d1 moved_cost + 1 / of_nat (length df)) d1
           in case get_cost_distribution original of
                Inl e \<Rightarrow> Inl e
              | Inr orig \<Rightarrow>
                  Inr (list_all (\<lambda>k. \<bar>dict_get new_dist k - dict_get orig k\<bar>
                                        \<le> COST_DISTRIBUTION_TOLERANCE)
                         [1, 2, 3, 4, 5, 6])))"

definition stat_adjustment ::
  "bool \<Rightarrow> nat \<Rightarrow> int \<Rightarrow> int \<Rightarrow> int \<Rightarrow> adjustment list \<Rightarrow> py_error + adjustment list" where
  "stat_adjustment too_strong idx max_allowed current_atk current_def adjustments =
     (case calculate_safe_stat_adjustment max_allowed current_atk current_def 0 0 of
        Inl e \<Rightarrow> Inl e
      | Inr (new_atk, new_def) \<Rightarrow>
          if (if too_strong then new_atk < current_atk \<or> new_def < current_def
              else new_atk > current_atk \<or> new_def > current_def)
          then Inr (adjustments @
                 [\<lparr>card_idx = idx, cost_adjust = 0, atk_adjust = new_atk - current_atk,
                   def_adjust = new_def - current_def\<rparr>])
          else Inr adjustments)"

definition card_step ::
  "ultimate_power \<Rightarrow> simulator \<Rightarrow> string \<times> card_stat \<Rightarrow> adjustment list
     \<Rightarrow> py_error + adjustment list" where
  "card_step up sim entry adjustments =
     (let card_id = fst entry; cs = snd entry
      in if card_id \<in> set [''Player 1'', ''Player 2''] \<or> plays cs < 5 then Inr adjustments
         else (let name' = name_of_id card_id; variant' = variant_of_id card_id
               in case find_card (cards_df sim) name' variant' of
                    None \<Rightarrow> Inr adjustments
                  | Some idx \<Rightarrow>
                      (let current_card = cards_df sim ! idx;
                           current_cost = Cost current_card;
                           max_allowed = get_max_total_stats current_cost;
                           win_rate = of_int (wins cs) / of_int (plays cs);
                           avg_damage = (case total_damage' cs of
                                           Some d \<Rightarrow> of_int d / of_int (plays cs)
                                         | None \<Rightarrow> 0);
                           ultimate_power = evaluate_ultimate_power up (cards_df sim) name';
                           expected_win_rate =
                             target_win_rate sim * (1 + ultimate_power * ULTIMATE_POWER_FACTOR);
                           win_rate_diff = win_rate - expected_win_rate;
                           current_atk = ATK current_card;
                           current_def = DEF current_card
                       in if \<bar>win_rate_diff\<bar> > win_rate_tolerance sim
                          then (if win_rate_diff > 0
                                then (if current_cost < 6
                                      then (case cost_change_allowed (cards_df sim)
                                                   (original_cards sim) current_cost (current_cost + 1) of
                                              Inl e \<Rightarrow> Inl e
                                            | Inr allowed \<Rightarrow>
                                                if allowed \<and> avg_damage >
                                                     of_int current_cost * (100 * (1 - ultimate_power))
                                                then Inr (adjustments @
                                                       [\<lparr>card_idx = idx, cost_adjust = 1,
                                                         atk_adjust = 0, def_adjust = 0\<rparr>])
                                                else stat_adjustment True idx max_allowed
                                                       current_atk current_def adjustments)
                                      else Inr adjustments)
                                else (if current_cost > 1
                                      then (case cost_change_allowed (cards_df sim)
                                                   (original_cards sim) current_cost (current_cost - 1) of
                                              Inl e \<Rightarrow> Inl e
                                            | Inr allowed \<Rightarrow>
                                                if allowed \<and> avg_damage <
                                                     of_int current_cost * (75 * (1 - ultimate_power))
                                                then Inr (adjustments @
                                                       [\<lparr>card_idx = idx, cost_adjust = - 1,
                                                         atk_adjust = 0, def_adjust = 0\<rparr>])
                                                else stat_adjustment False idx max_allowed
                                                       current_atk current_def adjustments)
                                      else Inr adjustments))
                          else Inr adjustments)))"

fun card_loop ::
  "ultimate_power \<Rightarrow> simulator \<Rightarrow> card_stats \<Rightarrow> adjustment list \<Rightarrow> py_error + adjustment list" where
  "card_loop up sim [] adjustments = Inr adjustments"
| "card_loop up sim (entry # entries) adjustments =
     (case card_step up sim entry adjustments of
        Inl e \<Rightarrow> Inl e
      | Inr adjustments' \<Rightarrow> card_loop up sim entries adjustments')"

definition apply_adjustment :: "adjustment \<Rightarrow> card_row list \<Rightarrow> card_row list" where
  "apply_adjustment adj df =
     (let idx = card_idx adj;
          r = df ! idx;
          r1 = (if cost_adjust adj \<noteq> 0
                then r\<lparr>Cost := max 1 (min 6 (Cost r + cost_adjust adj))\<rparr> else r);
          r2 = (if atk_adjust adj \<noteq> 0
                then r1\<lparr>ATK := round_to_nearest_50 (of_int (ATK r1 + atk_adjust adj))\<rparr> else r1);
          r3 = (if def_adjust adj \<noteq> 0
                then r2\<lparr>DEF := round_to_nearest_50 (of_int (DEF r2 + def_adjust adj))\<rparr> else r2)
      in df[idx := r3])"

definition adjust_card_stats :: "ultimate_power \<Rightarrow> simulator \<Rightarrow> card_stats \<Rightarrow> py_error + simulator" where
  "adjust_card_stats up sim stats =
     (case normalize_first 0 (cards_df sim) of
        Inl e \<Rightarrow> Inl e
      | Inr (df1, scaled) \<Rightarrow>
          (case card_loop up (sim\<lparr>cards_df := df1\<rparr>) stats scaled of
             Inl e \<Rightarrow> Inl e
           | Inr adjustments \<Rightarrow>
               (case normalize_final (fold apply_adjustment adjustments df1) of
                  Inl e \<Rightarrow> Inl e
                | Inr df3 \<Rightarrow>
                    Inr (sim\<lparr>cards_df := df3, current_adjustments := adjustments\<rparr>))))"

definition adjusted_distribution ::
  "ultimate_power \<Rightarrow> simulator \<Rightarrow> card_stats \<Rightarrow> py_error + (int \<times> rat) list" where
  "adjusted_distribution up sim stats =
     (case adjust_card_stats up sim stats of
        Inl e \<Rightarrow> Inl e
      | Inr sim' \<Rightarrow> get_cost_distribution (cards_df sim'))"

subsection \<open>Balance score and the iteration loop\<close>

definition expected_power :: "int \<Rightarrow> rat" where
  "expected_power c =
     (case map_of [(1, 150), (2, 200), (3, 300), (4, 450), (5, 650), (6, 900), (7, 1200)] c of
        None \<Rightarrow> 150
      | Some p \<Rightarrow> p)"

definition calculate_cost_efficiency :: "card_row \<Rightarrow> rat" where
  "calculate_cost_efficiency card_data =
     (let base_power = of_int (ATK card_data) + of_int (DEF card_data) * (6 / 10);
          expected = expected_power (Cost card_data);
          efficiency = (if expected > 0 then base_power / expected else 0)
      in min 10 (max 0 (efficiency * 10)))"

definition card_score :: "simulator \<Rightarrow> card_stats \<Rightarrow> string \<times> card_stat \<Rightarrow> py_error + rat option" where
  "card_score sim stats entry =
     (let card_id = fst entry; cs = snd entry
      in if card_id \<in> set [''Player 1'', ''Player 2''] \<or> plays cs < 5 then Inr None
         else (let win_rate = (if plays cs > 0 then of_int (wins cs) / of_int (plays cs) else 0);
                   win_rate_score =
                     (if \<bar>win_rate - target_win_rate sim\<bar> \<le> 1 / 10 then 40 else 0);
                   damage_sum = (case total_damage' cs of None \<Rightarrow> 0 | Some d \<Rightarrow> d);
                   damage_score =
                     (if plays cs > 0
                      then min 30 ((of_int damage_sum / of_int (plays cs)) / 10) else 0);
                   total_plays = sum_list (map (\<lambda>s. plays (snd s)) stats);
                   play_rate =
                     (if total_plays > 0 then of_int (plays cs) / of_int total_plays else 0);
                   play_rate_score = min 20 (play_rate * 200)
               in case filter (\<lambda>r. Name r = name_of_id card_id) (cards_df sim) of
                    [] \<Rightarrow> Inl IndexError
                  | card_data # _ \<Rightarrow>
                      Inr (Some (win_rate_score + damage_score + play_rate_score
                                 + calculate_cost_efficiency card_data))))"

fun score_loop :: "simulator \<Rightarrow> card_stats \<Rightarrow> card_stats \<Rightarrow> py_error + rat list" where
  "score_loop sim stats [] = Inr []"
| "score_loop sim stats (entry # entries) =
     (case card_score sim stats entry of
        Inl e \<Rightarrow> Inl e
      | Inr sc \<Rightarrow>
          (case score_loop sim stats entries of
             Inl e \<Rightarrow> Inl e
           | Inr scs \<Rightarrow> Inr ((case sc of None \<Rightarrow> [] | Some x \<Rightarrow> [x]) @ scs)))"

definition calculate_balance_score :: "simulator \<Rightarrow> card_stats \<Rightarrow> py_error + rat" where
  "calculate_balance_score sim stats =
     (case score_loop sim stats stats of
        Inl e \<Rightarrow> Inl e
      | Inr card_scores \<Rightarrow>
          Inr (if card_scores = [] then 0
               else sum_list card_scores / of_nat (length card_scores)))"

record iteration_stats =
  card_stats_of :: card_stats
  has_ultimate_stats :: bool

type_synonym single_iteration = "nat \<Rightarrow> card_row list \<Rightarrow> iteration_stats"

definition iteration_step :: "ultimate_power \<Rightarrow> iteration_stats \<Rightarrow> simulator \<Rightarrow> py_error + simulator" where
  "iteration_step up its sim =
     (if \<not> has_ultimate_stats its then Inl KeyError
      else (case calculate_balance_score sim (card_stats_of its) of
              Inl e \<Rightarrow> Inl e
            | Inr balance_score \<Rightarrow>
                adjust_card_stats up
                  (if py_gt balance_score (best_balance_score sim)
                   then sim\<lparr>best_balance_score := Fin balance_score,
                            best_balance := Some (cards_df sim)\<rparr>
                   else sim)
                  (card_stats_of its)))"

fun iterations ::
  "single_iteration \<Rightarrow> ultimate_power \<Rightarrow> nat \<Rightarrow> nat \<Rightarrow> simulator \<Rightarrow> py_error + simulator" where
  "iterations run_single up iteration 0 sim = Inr sim"
| "iterations run_single up iteration (Suc n) sim =
     (case iteration_step up (run_single iteration (cards_df sim)) sim of
        Inl e \<Rightarrow> Inl e
      | Inr sim' \<Rightarrow> iterations run_single up (iteration + 1) n sim')"

definition run_balance_iterations ::
  "single_iteration \<Rightarrow> ultimate_power \<Rightarrow> (simulator \<Rightarrow> bool) \<Rightarrow> nat \<Rightarrow> simulator
     \<Rightarrow> card_row list option" where
  "run_balance_iterations run_single up final_analysis_raises num_iterations sim =
     (case iterations run_single up 0 num_iterations sim of
        Inl e \<Rightarrow> None
      | Inr sim' \<Rightarrow> if final_analysis_raises sim' then None else best_balance sim')"

subsection \<open>Concrete tables\<close>

definition top_heavy :: card_row where
  "top_heavy = \<lparr>Name = ''Cursed Doll'', Variant = ''Standard'', Cost = 1, ATK = 100, DEF = 300\<rparr>"

definition two_cost :: "string \<Rightarrow> card_row" where
  "two_cost n = \<lparr>Name = n, Variant = ''Standard'', Cost = 2, ATK = 100, DEF = 100\<rparr>"

definition flat_table :: "card_row list" where
  "flat_table =
     map two_cost [''Panda'', ''Maki Zenin'', ''Toge Inumaki'', ''Aoi Todo'', ''Mai Zenin'',
                   ''Kasumi Miwa'', ''Momo Nishimiya'', ''Noritoshi Kamo'', ''Mechamaru'',
                   ''Junpei Yoshino'', ''Kiyotaka Ijichi'']"

definition flat_simulator :: simulator where
  "flat_simulator = BalanceSimulator_init None flat_table (1 / 2) (1 / 20)"

definition losing :: card_stat where
  "losing = \<lparr>plays = 10, wins = 0, total_damage' = Some 0\<rparr>"

definition weak_stats :: card_stats where
  "weak_stats = [(''Panda (Standard)'', losing), (''Maki Zenin (Standard)'', losing)]"

definition weak_iteration :: single_iteration where
  "weak_iteration iteration df = \<lparr>card_stats_of = weak_stats, has_ultimate_stats = True\<rparr>"

section \<open>Observations on a battle and frame properties of the engine\<close>

text \<open>The two graveyards and the two life totals of a battle state.\<close>

definition graveyards :: "battle \<Rightarrow> character list \<times> character list" where
  "graveyards b = (graveyard (player_deck (player1 b)), graveyard (player_deck (player2 b)))"

definition lives :: "battle \<Rightarrow> int \<times> int" where
  "lives b = (life_points (player1 b), life_points (player2 b))"

text \<open>The lookup that battle.py imports raises on every call, and the engine catches it.\<close>

lemma get_ultimate_ability_raises: "get_ultimate_ability n v = Inl TypeError"
  by (simp add: get_ultimate_ability_def UltimateAbility_def)

lemma combat_one_lookup_raises:
  "combat_one get_ultimate_ability s i b =
     b\<lparr>battle_log := battle_log b @ [CombatFailed (name (field (get_player s b) ! i))]\<rparr>"
  by (simp add: combat_one_def get_ultimate_ability_raises Let_def)

lemma graveyards_log [simp]: "graveyards (b\<lparr>battle_log := l\<rparr>) = graveyards b"
  by (simp add: graveyards_def)

lemma graveyards_update_damage_stats [simp]:
  "graveyards (update_damage_stats b n d t) = graveyards b"
  by (simp add: update_damage_stats_def graveyards_def Let_def)

lemma graveyards_set_player:
  "graveyard (player_deck p) = graveyard (player_deck (get_player s b))
   \<Longrightarrow> graveyards (set_player s p b) = graveyards b"
  by (cases s) (simp_all add: graveyards_def)

lemma graveyards_play_one [simp]: "graveyards (play_one s c b) = graveyards b"
  by (cases s) (simp_all add: play_one_def play_card_def graveyards_def Let_def split: option.splits)

lemma graveyards_play_phase [simp]: "graveyards (play_phase s b) = graveyards b"
proof -
  have "graveyards (fold (play_one s) cs b) = graveyards b" for cs
    by (induction cs arbitrary: b) simp_all
  then show ?thesis by (simp add: play_phase_def)
qed

lemma graveyards_regular_combat [simp]: "graveyards (regular_combat s i b) = graveyards b"
  by (cases s) (simp_all add: regular_combat_def player_take_damage_def graveyards_def Let_def update_damage_stats_def split: prod.splits)

lemma graveyards_combat_one [simp]: "graveyards (combat_one gu s i b) = graveyards b"
  by (cases s) (simp_all add: combat_one_def  graveyards_def Let_def update_damage_stats_def regular_combat_def player_take_damage_def split: prod.splits sum.splits)


lemma graveyards_combat_phase [simp]: "graveyards (combat_phase gu s b) = graveyards b"
proof -
  have "graveyards (fold (combat_one gu s) is b) = graveyards b" for "is"
    by (induction "is" arbitrary: b) simp_all
  then show ?thesis by (simp add: combat_phase_def)
qed

lemma graveyards_process_turn [simp]:
  "graveyards (snd (process_turn gu s b)) = graveyards b"
proof -
  have a: "graveyards (set_player s (snd (draw_cards (get_player s b) n)) b) = graveyards b" for n
    by (cases s) (simp_all add: graveyards_def draw_cards_def draw_def Let_def split: prod.splits)
  have b: "graveyards (set_player s (player_add_energy (get_player s b') 1) b') = graveyards b'" for b'
    by (cases s) (simp_all add: graveyards_def player_add_energy_def)
  have c: "graveyards (set_player s (get_player s b'\<lparr>field := f\<rparr>) b') = graveyards b'" for b' f
    by (cases s) (simp_all add: graveyards_def)
  show ?thesis
    by (simp add: process_turn_def process_actions_def Let_def a b c)
qed


lemma simulate_battle_frame:
  assumes turn: "\<And>s b. f (snd (process_turn gu s b)) = f b"
    and reset: "\<And>b l. f (b\<lparr>placements_this_turn := l\<rparr>) = f b"
    and count: "\<And>b n. f (b\<lparr>current_turn := n\<rparr>) = f b"
  shows "f (snd (simulate_battle gu b)) = f b"
  using turn
proof (induction gu b rule: simulate_battle.induct)
  case (1 gu b)
  note turn = "1.prems"
  show ?case
  proof (cases "current_turn b \<le> 50")
    case False
    then show ?thesis by (subst simulate_battle.simps) simp
  next
    case True
    define b0 where "b0 = b\<lparr>placements_this_turn := [(''Player 1'', 0), (''Player 2'', 0)]\<rparr>"
    obtain won1 b1 where r1: "process_turn gu P1 b0 = (won1, b1)" by (cases "process_turn gu P1 b0")
    obtain won2 b2 where r2: "process_turn gu P2 b1 = (won2, b2)" by (cases "process_turn gu P2 b1")
    have g0: "f b0 = f b" by (simp add: b0_def reset)
    have g1: "f b1 = f b0" using turn [of P1 b0] r1 by simp
    have g2: "f b2 = f b1" using turn [of P2 b1] r2 by simp
    show ?thesis
    proof (cases won1)
      case True
      then show ?thesis using \<open>current_turn b \<le> 50\<close> r1 g0 g1
        by (subst simulate_battle.simps) (simp add: b0_def [symmetric] Let_def)
    next
      case w1: False
      show ?thesis
      proof (cases won2)
        case True
        then show ?thesis using \<open>current_turn b \<le> 50\<close> r1 r2 w1 g0 g1 g2
          by (subst simulate_battle.simps) (simp add: b0_def [symmetric] Let_def)
      next
        case w2: False
        have ih: "f (snd (simulate_battle gu (b2\<lparr>current_turn := current_turn b2 + 1\<rparr>)))
                  = f (b2\<lparr>current_turn := current_turn b2 + 1\<rparr>)"
          using "1.IH" [OF True b0_def refl r1 [symmetric] _ refl r2 [symmetric] _ turn] w1 w2 by simp
        then show ?thesis using \<open>current_turn b \<le> 50\<close> r1 r2 w1 w2 g0 g1 g2 count
          by (subst simulate_battle.simps) (simp add: b0_def [symmetric] Let_def)
      qed
    qed
  qed
qed

lemma graveyards_simulate_battle: "graveyards (snd (simulate_battle gu b)) = graveyards b"
  by (rule simulate_battle_frame) (simp_all, simp_all add: graveyards_def)


lemma lives_play_one [simp]: "lives (play_one s c b) = lives b"
  by (cases s) (simp_all add: play_one_def play_card_def lives_def Let_def split: option.splits)

lemma lives_play_phase [simp]: "lives (play_phase s b) = lives b"
proof -
  have "lives (fold (play_one s) cs b) = lives b" for cs
    by (induction cs arbitrary: b) simp_all
  then show ?thesis by (simp add: play_phase_def)
qed

lemma lives_combat_phase_raises [simp]: "lives (combat_phase get_ultimate_ability s b) = lives b"
proof -
  have "lives (fold (combat_one get_ultimate_ability s) is b) = lives b" for "is"
    by (induction "is" arbitrary: b) (simp_all add: combat_one_lookup_raises lives_def)
  then show ?thesis by (simp add: combat_phase_def)
qed

lemma lives_process_turn_raises [simp]:
  "lives (snd (process_turn get_ultimate_ability s b)) = lives b"
proof -
  have a: "lives (set_player s (snd (draw_cards (get_player s b) n)) b) = lives b" for n
    by (cases s) (simp_all add: lives_def draw_cards_def draw_def Let_def split: prod.splits)
  have b: "lives (set_player s (player_add_energy (get_player s b') 1) b') = lives b'" for b'
    by (cases s) (simp_all add: lives_def player_add_energy_def)
  have c: "lives (set_player s (get_player s b'\<lparr>field := f\<rparr>) b') = lives b'" for b' f
    by (cases s) (simp_all add: lives_def)
  show ?thesis
    by (simp add: process_turn_def process_actions_def Let_def a b c)
qed

lemma lives_simulate_battle_raises:
  "lives (snd (simulate_battle get_ultimate_ability b)) = lives b"
  by (rule simulate_battle_frame) (simp_all, simp_all add: lives_def)

section \<open>The winner at the turn cap\<close>

definition tie_battle :: battle where
  "tie_battle =
     Battle_init
       (Player_init ''Player 1''
          \<lparr>cards = [Character_init 0 ''Panda'' ''Standard'' 2 300 400 1 300], graveyard = []\<rparr>)
       (Player_init ''Player 2''
          \<lparr>cards = [Character_init 1 ''Panda'' ''Standard'' 2 300 400 1 300], graveyard = []\<rparr>)"

text \<open>
  Claim C7. When \<open>simulate_battle\<close> returns and neither player's life points are down to 0
  in the state it leaves, the loop has run to the cap (the turn counter stands at 51, after
  the 50th turn pair) and the winner is player 1 exactly when player 1 has strictly more life
  points; on equal life points the winner is player 2, whatever else the state holds.
\<close>

theorem simulate_battle_cap:
  assumes "simulate_battle gu b = (w, b')"
    and "0 < life_points (player1 b')" and "0 < life_points (player2 b')"
    and "current_turn b \<le> 51"
  shows "w = (if life_points (player1 b') > life_points (player2 b') then P1 else P2)
         \<and> current_turn b' = 51"
  using assms
proof (induction gu b rule: simulate_battle.induct)
  case (1 gu b)
  show ?case
  proof (cases "current_turn b \<le> 50")
    case False
    then show ?thesis using "1.prems" by (subst (asm) simulate_battle.simps) auto
  next
    case True
    define b0 where "b0 = b\<lparr>placements_this_turn := [(''Player 1'', 0), (''Player 2'', 0)]\<rparr>"
    obtain won1 b1 where r1: "process_turn gu P1 b0 = (won1, b1)" by (cases "process_turn gu P1 b0")
    obtain won2 b2 where r2: "process_turn gu P2 b1 = (won2, b2)" by (cases "process_turn gu P2 b1")
    have l1: "won1 = (life_points (player2 b1) \<le> 0)"
      using r1 by (auto simp add: process_turn_def Let_def)
    have l2: "won2 = (life_points (player1 b2) \<le> 0)"
      using r2 by (auto simp add: process_turn_def Let_def)
    have "current_turn b1 = current_turn b0"
      using arg_cong [OF r1, of "\<lambda>r. current_turn (snd r)"] by simp
    moreover have "current_turn b2 = current_turn b1"
      using arg_cong [OF r2, of "\<lambda>r. current_turn (snd r)"] by simp
    ultimately have t2: "current_turn b2 = current_turn b"
      by (simp add: b0_def)
    have unfold: "simulate_battle gu b =
        (if won1 then (P1, b1) else if won2 then (P2, b2)
         else simulate_battle gu (b2\<lparr>current_turn := current_turn b2 + 1\<rparr>))"
      using True r1 r2 by (subst simulate_battle.simps) (simp add: b0_def [symmetric] Let_def)
    show ?thesis
    proof (cases "won1 \<or> won2")
      case True
      then show ?thesis using "1.prems" unfold l1 l2 by (auto split: if_splits)
    next
      case False
      then have rec: "simulate_battle gu (b2\<lparr>current_turn := current_turn b2 + 1\<rparr>) = (w, b')"
        using "1.prems"(1) unfold by simp
      show ?thesis
        using "1.IH" [OF True b0_def refl r1 [symmetric] _ refl r2 [symmetric] _ rec "1.prems"(2,3)]
          False t2 True by simp
    qed
  qed
qed

theorem simulate_battle_cap_witness:
  "0 < life_points (player1 (snd (simulate_battle get_ultimate_ability tie_battle)))
   \<and> 0 < life_points (player2 (snd (simulate_battle get_ultimate_ability tie_battle)))
   \<and> current_turn tie_battle \<le> 51
   \<and> fst (simulate_battle get_ultimate_ability tie_battle) = P2
   \<and> current_turn (snd (simulate_battle get_ultimate_ability tie_battle)) = 51"
proof -
  have l: "lives (snd (simulate_battle get_ultimate_ability tie_battle)) = (2000, 2000)"
    by (simp add: lives_simulate_battle_raises) (simp add: lives_def tie_battle_def Battle_init_def Let_def)
  have p1: "0 < life_points (player1 (snd (simulate_battle get_ultimate_ability tie_battle)))"
    and p2: "0 < life_points (player2 (snd (simulate_battle get_ultimate_ability tie_battle)))"
    and eq: "life_points (player1 (snd (simulate_battle get_ultimate_ability tie_battle)))
             = life_points (player2 (snd (simulate_battle get_ultimate_ability tie_battle)))"
    using l by (simp_all add: lives_def)
  have t: "current_turn tie_battle \<le> 51"
    by (simp add: tie_battle_def Battle_init_def Let_def)
  show ?thesis
    using simulate_battle_cap [OF prod.collapse [symmetric] p1 p2 t] p1 p2 t eq by simp
qed


section \<open>The play phase\<close>

text \<open>
  The play phase as the specification words it: the candidates are taken in hand order; a
  candidate is played when its cost is at most the energy left and the field has fewer than
  5 cards, which debits the energy and fills one field slot; a candidate that fails the test
  is skipped and the next one is tried. \<open>played_cards\<close> applies this to the first two
  playable hand cards.
\<close>

fun spec_played :: "int \<Rightarrow> nat \<Rightarrow> character list \<Rightarrow> character list" where
  "spec_played e n [] = []"
| "spec_played e n (c # cs) =
     (if cost c \<le> e \<and> n < 5 then c # spec_played (e - cost c) (Suc n) cs
      else spec_played e n cs)"

definition played_cards :: "player \<Rightarrow> character list" where
  "played_cards p =
     spec_played (player_energy p) (length (field p)) (take 2 (playable_cards p))"

definition play_battle :: battle where
  "play_battle =
     (let b = Battle_init
           (Player_init ''Player 1''
              \<lparr>cards = [Character_init 0 ''Panda'' ''Standard'' 2 300 400 1 300,
                        Character_init 1 ''Maki Zenin'' ''Standard'' 2 350 300 1 350,
                        Character_init 2 ''Toge Inumaki'' ''Standard'' 1 150 200 1 150],
               graveyard = []\<rparr>)
           (Player_init ''Player 2'' \<lparr>cards = [], graveyard = []\<rparr>)
      in b\<lparr>player1 := (player1 b)\<lparr>player_energy := 3\<rparr>\<rparr>)"

lemma play_one_accept:
  assumes "c \<in> set (hand (get_player s b))"
    and "cost c \<le> player_energy (get_player s b)" and "length (field (get_player s b)) < 5"
    and "map_of (placements_this_turn b) (player_name (get_player s b)) = Some k"
  shows "get_player s (play_one s c b) =
           (get_player s b)\<lparr>hand := remove1 c (hand (get_player s b)),
                             field := field (get_player s b) @ [c],
                             player_energy := player_energy (get_player s b) - cost c\<rparr>"
    and "map_of (placements_this_turn (play_one s c b)) (player_name (get_player s b)) = Some (k + 1)"
    and "get_player (other s) (play_one s c b) = get_player (other s) b"
  using assms
  by (cases s; simp add: play_one_def play_card_def Let_def update_conv split: option.splits)+

lemma play_one_skip:
  assumes "\<not> (cost c \<le> player_energy (get_player s b) \<and> length (field (get_player s b)) < 5)"
  shows "play_one s c b = b"
  using assms by (auto simp add: play_one_def Let_def)

lemma fold_play_one:
  assumes "mset cs \<subseteq># mset (hand (get_player s b))"
    and "map_of (placements_this_turn b) (player_name (get_player s b)) = Some k"
  shows "get_player s (fold (play_one s) cs b) =
           (get_player s b)\<lparr>
             hand := fold remove1
                       (spec_played (player_energy (get_player s b)) (length (field (get_player s b))) cs)
                       (hand (get_player s b)),
             field := field (get_player s b) @
                       spec_played (player_energy (get_player s b)) (length (field (get_player s b))) cs,
             player_energy := player_energy (get_player s b) -
                       sum_list (map cost
                         (spec_played (player_energy (get_player s b)) (length (field (get_player s b))) cs))\<rparr>
         \<and> map_of (placements_this_turn (fold (play_one s) cs b)) (player_name (get_player s b)) =
             Some (k + int (length
                (spec_played (player_energy (get_player s b)) (length (field (get_player s b))) cs)))
         \<and> get_player (other s) (fold (play_one s) cs b) = get_player (other s) b"
  using assms
proof (induction cs arbitrary: b k)
  case Nil
  then show ?case by simp
next
  case (Cons c cs)
  let ?p = "get_player s b"
  show ?case
  proof (cases "cost c \<le> player_energy ?p \<and> length (field ?p) < 5")
    case False
    have sub: "mset cs \<subseteq># mset (hand ?p)"
      using Cons.prems(1) by (metis mset.simps(2) subset_mset.dual_order.trans mset_subset_eq_add_left add_mset_add_single)
    have sp: "spec_played (player_energy ?p) (length (field ?p)) (c # cs)
              = spec_played (player_energy ?p) (length (field ?p)) cs"
      using False by auto
    have fo: "fold (play_one s) (c # cs) b = fold (play_one s) cs b"
      using play_one_skip [OF False] by simp
    show ?thesis
      unfolding sp fo using Cons.IH [OF sub Cons.prems(2)] .
  next
    case True
    have mem: "c \<in> set (hand ?p)"
      using Cons.prems(1) by (metis mset.simps(2) mset_subset_eq_insertD set_mset_mset)
    note acc = play_one_accept [OF mem _ _ Cons.prems(2)]
    have p': "get_player s (play_one s c b) =
           ?p\<lparr>hand := remove1 c (hand ?p), field := field ?p @ [c],
               player_energy := player_energy ?p - cost c\<rparr>"
      using acc(1) True by simp
    have k': "map_of (placements_this_turn (play_one s c b)) (player_name (get_player s (play_one s c b))) = Some (k + 1)"
      using acc(2) True p' by simp
    have o': "get_player (other s) (play_one s c b) = get_player (other s) b"
      using acc(3) True by simp
    have sub: "mset cs \<subseteq># mset (hand (get_player s (play_one s c b)))"
      using Cons.prems(1) mem by (simp add: p' insert_subset_eq_iff)
    have sp: "spec_played (player_energy ?p) (length (field ?p)) (c # cs)
              = c # spec_played (player_energy ?p - cost c) (Suc (length (field ?p))) cs"
      using True by simp
    have fo: "fold (play_one s) (c # cs) b = fold (play_one s) cs (play_one s c b)"
      by simp
    show ?thesis
      unfolding sp fo using Cons.IH [OF sub k'] o' by (simp add: p' algebra_simps)
  qed
qed

lemma spec_played_length: "length (spec_played e n cs) \<le> length cs"
  by (induction cs arbitrary: e n) (auto simp add: le_SucI)

text \<open>
  Claim C8. In the play phase of a player whose name is a key of \<open>placements_this_turn\<close>
  (the engine's two keys are \<open>Player 1\<close> and \<open>Player 2\<close>, the names every caller of
  \<open>simulate_battle\<close> uses), the engine tries the first two hand cards with cost at most the
  energy, in hand order; the cards played are exactly \<open>played_cards\<close>: they leave the hand
  and go to the end of the field, the energy drops by the sum of their costs, the player's
  placement counter grows by their number, which is at most 2, and the opponent is untouched.
\<close>

theorem play_phase_plays:
  assumes "map_of (placements_this_turn b) (player_name (get_player s b)) = Some k"
  shows "get_player s (play_phase s b) =
           (get_player s b)\<lparr>
             hand := fold remove1 (played_cards (get_player s b)) (hand (get_player s b)),
             field := field (get_player s b) @ played_cards (get_player s b),
             player_energy := player_energy (get_player s b) -
                                sum_list (map cost (played_cards (get_player s b)))\<rparr>
         \<and> map_of (placements_this_turn (play_phase s b)) (player_name (get_player s b)) =
             Some (k + int (length (played_cards (get_player s b))))
         \<and> length (played_cards (get_player s b)) \<le> 2
         \<and> get_player (other s) (play_phase s b) = get_player (other s) b"
proof -
  have sub: "mset (take 2 (playable_cards (get_player s b))) \<subseteq># mset (hand (get_player s b))"
  proof -
    have "mset (take 2 (playable_cards (get_player s b))) \<subseteq># mset (playable_cards (get_player s b))"
      by (metis append_take_drop_id mset_append mset_subset_eq_add_left)
    also have "\<dots> \<subseteq># mset (hand (get_player s b))"
      by (simp add: playable_cards_def)
    finally show ?thesis .
  qed
  have len: "length (played_cards (get_player s b)) \<le> 2"
    using spec_played_length [of _ _ "take 2 (playable_cards (get_player s b))"]
    by (simp add: played_cards_def)
  show ?thesis
    using fold_play_one [OF sub assms] len by (simp add: play_phase_def played_cards_def)
qed


theorem play_phase_plays_witness:
  "map_of (placements_this_turn play_battle) (player_name (get_player P1 play_battle)) = Some 0
   \<and> map name (played_cards (get_player P1 play_battle)) = [''Panda'']
   \<and> map name (field (get_player P1 (play_phase P1 play_battle))) = [''Panda'']
   \<and> map name (hand (get_player P1 (play_phase P1 play_battle))) = [''Maki Zenin'', ''Toge Inumaki'']
   \<and> player_energy (get_player P1 (play_phase P1 play_battle)) = 1
   \<and> map_of (placements_this_turn (play_phase P1 play_battle)) ''Player 1'' = Some 1"
proof -
  have k: "map_of (placements_this_turn play_battle) (player_name (get_player P1 play_battle)) = Some 0"
    by (simp add: play_battle_def Battle_init_def Player_init_def draw_cards_def draw_def Let_def)
  have pc: "played_cards (player1 play_battle)
            = [Character_init 0 ''Panda'' ''Standard'' 2 300 400 1 300]"
    by (simp add: played_cards_def playable_cards_def play_battle_def Battle_init_def Player_init_def
        draw_cards_def draw_def Character_init_def Let_def)
  have p: "player1 play_battle =
     \<lparr>player_name = ''Player 1'', player_deck = \<lparr>cards = [], graveyard = []\<rparr>,
      hand = [Character_init 0 ''Panda'' ''Standard'' 2 300 400 1 300,
              Character_init 1 ''Maki Zenin'' ''Standard'' 2 350 300 1 350,
              Character_init 2 ''Toge Inumaki'' ''Standard'' 1 150 200 1 150],
      field = [], life_points = 2000, player_energy = 3, max_energy = 10\<rparr>"
    by (simp add: play_battle_def Battle_init_def Player_init_def draw_cards_def draw_def Let_def)
  show ?thesis
    using play_phase_plays [OF k] k
    by (simp add: pc) (simp add: p Character_init_def)
qed


section \<open>The combat phase: ultimates\<close>

text \<open>
  A battle state in which player 1's only field character is Gojo Satoru (Standard), with 3
  energy and an ultimate cost of 2 (ultimate damage \<open>int(300 * 2.5) = 750\<close>), and player 2's
  field holds one living character with 400 health. The lookup's table has an entry for
  (Gojo Satoru, Standard), the defender's field is not empty and the energy covers the cost.
\<close>

definition ultimate_ready_battle :: battle where
  "ultimate_ready_battle =
     (let b = Battle_init (Player_init ''Player 1'' \<lparr>cards = [], graveyard = []\<rparr>)
                          (Player_init ''Player 2'' \<lparr>cards = [], graveyard = []\<rparr>)
      in b\<lparr>player1 := (player1 b)\<lparr>field :=
                [(Character_init 0 ''Gojo Satoru'' ''Standard'' 4 300 400 2 750)\<lparr>energy := 3\<rparr>]\<rparr>,
            player2 := (player2 b)\<lparr>field :=
                [Character_init 1 ''Panda'' ''Standard'' 2 300 400 1 300]\<rparr>\<rparr>)"

text \<open>
  Claim C2 (an eligible ultimate always activates: it hits the defender with the highest
  health, debits the attacker's energy, is recorded under \<open>ultimate_damage\<close> and counted,
  and replaces the basic attack). The engine does none of it: the lookup raises before the
  eligibility test, the handler logs the failure, and the attacker's whole action is lost.
  In the state above \<open>_process_actions\<close> changes nothing but the log: Gojo keeps his 3
  energy, the defender keeps 400 health, and no damage or ability use is recorded.
\<close>

theorem eligible_ultimate_never_fires:
  "process_actions get_ultimate_ability P1 ultimate_ready_battle
     = ultimate_ready_battle\<lparr>battle_log := [CombatFailed ''Gojo Satoru'']\<rparr>
   \<and> map energy (field (player1 (process_actions get_ultimate_ability P1 ultimate_ready_battle))) = [3]
   \<and> map current_health (field (player2 (process_actions get_ultimate_ability P1 ultimate_ready_battle))) = [400]
   \<and> total_damage (process_actions get_ultimate_ability P1 ultimate_ready_battle) = 0"
  by code_simp

section \<open>Dead characters and the graveyard\<close>

text \<open>
  The reading of the specification: after a turn no field holds a character that is not
  alive.
\<close>

definition no_dead_on_field :: "battle \<Rightarrow> bool" where
  "no_dead_on_field b =
     (list_all is_alive (field (player1 b)) \<and> list_all is_alive (field (player2 b)))"

text \<open>The identities of the characters on a player's field, in field order.\<close>

definition field_ids :: "side \<Rightarrow> battle \<Rightarrow> nat list" where
  "field_ids t b = map ident (field (get_player t b))"

text \<open>One pass of the loop of \<open>simulate_battle\<close>: a turn of player 1, then one of player 2.\<close>

definition play_round :: "ultimate_lookup \<Rightarrow> battle \<Rightarrow> battle" where
  "play_round gu b = snd (process_turn gu P2 (snd (process_turn gu P1 b)))"

text \<open>
  A battle of two one-card decks. In the first round each player plays the card. Then
  Panda (\<open>atk\<close> 300) strikes Cursed Doll (health 100) through
  \<open>process_character_combat\<close>, which brings its health to 0.
\<close>

definition opening_battle :: battle where
  "opening_battle =
     Battle_init
       (Player_init ''Player 1''
          \<lparr>cards = [Character_init 0 ''Panda'' ''Standard'' 2 300 400 1 300], graveyard = []\<rparr>)
       (Player_init ''Player 2''
          \<lparr>cards = [Character_init 1 ''Cursed Doll'' ''Standard'' 1 100 100 1 100], graveyard = []\<rparr>)"

definition struck_battle :: battle where
  "struck_battle = process_character_combat P1 0 0 (play_round get_ultimate_ability opening_battle)"

text \<open>A lookup that raises nothing and finds no ability for any name.\<close>

definition no_ultimate :: ultimate_lookup where
  "no_ultimate n v = Inr None"

text \<open>
  No step of a turn takes a character off a field: the play phase appends to the active
  field, and combat and regeneration update characters in place.
\<close>

lemma map_ident_update:
  "ident y = ident (xs ! j) \<Longrightarrow> map ident (xs[j := y]) = map ident xs"
proof (cases "j < length xs")
  case True
  assume "ident y = ident (xs ! j)"
  then show ?thesis using True by (simp add: map_update list_update_same_conv)
next
  case False
  then have "length xs \<le> j" by simp
  then have "xs[j := y] = xs" by (rule list_update_beyond)
  then show ?thesis by simp
qed

lemma ident_take_damage [simp]: "ident (snd (take_damage c a)) = ident c"
  by (simp add: take_damage_def Let_def)

lemma ident_add_energy [simp]: "ident (add_energy c) = ident c"
  by (simp add: add_energy_def)

lemma ident_regenerate_health [simp]: "ident (regenerate_health c) = ident c"
  by (simp add: regenerate_health_def)

lemma ident_use_ultimate [simp]:
  "ident (fst (snd (use_ultimate a t))) = ident a"
  "ident (snd (snd (use_ultimate a t))) = ident t"
  by (simp_all add: use_ultimate_def take_damage_def Let_def split: prod.splits)

lemma field_ids_log [simp]: "field_ids t (b\<lparr>battle_log := l\<rparr>) = field_ids t b"
  by (cases t) (simp_all add: field_ids_def)

lemma field_ids_update_damage_stats [simp]:
  "field_ids t (update_damage_stats b n d ty) = field_ids t b"
  by (cases t) (simp_all add: update_damage_stats_def field_ids_def Let_def)

lemma field_ids_set_player_same:
  "map ident (field p) = xs \<Longrightarrow> field_ids s (set_player s p b) = xs"
  by (cases s) (simp_all add: field_ids_def)

lemma field_ids_set_player_other [simp]:
  "field_ids (other s) (set_player s p b) = field_ids (other s) b"
  "field_ids s (set_player (other s) p b) = field_ids s b"
  by (cases s; simp add: field_ids_def)+

lemma field_ids_set_player:
  "map ident (field p) = map ident (field (get_player s b))
   \<Longrightarrow> field_ids t (set_player s p b) = field_ids t b"
  by (cases s; cases t) (simp_all add: field_ids_def)

lemma field_ids_play_one: "prefix (field_ids t b) (field_ids t (play_one s c b))"
  by (cases s; cases t)
     (simp_all add: play_one_def play_card_def field_ids_def Let_def split: option.splits)

lemma field_ids_play_phase: "prefix (field_ids t b) (field_ids t (play_phase s b))"
proof -
  have "prefix (field_ids t b) (field_ids t (fold (play_one s) cs b))" for cs
  proof (induction cs arbitrary: b)
    case Nil
    show ?case by simp
  next
    case (Cons c cs)
    have "prefix (field_ids t b) (field_ids t (play_one s c b))" by (rule field_ids_play_one)
    also have "prefix \<dots> (field_ids t (fold (play_one s) cs (play_one s c b)))" by (rule Cons.IH)
    finally show ?case by simp
  qed
  then show ?thesis by (simp add: play_phase_def)
qed

lemma field_ids_regular_combat [simp]: "field_ids t (regular_combat s i b) = field_ids t b"
  by (cases s; cases t)
     (simp_all add: regular_combat_def field_ids_def Let_def player_take_damage_def
        update_damage_stats_def map_ident_update take_damage_def add_energy_def split: prod.splits)

lemma field_ids_combat_one [simp]: "field_ids t (combat_one gu s i b) = field_ids t b"
  by (cases s; cases t)
     (simp_all add: combat_one_def regular_combat_def field_ids_def Let_def player_take_damage_def
        update_damage_stats_def map_ident_update take_damage_def add_energy_def use_ultimate_def
        split: prod.splits sum.splits)

lemma field_ids_combat_phase [simp]: "field_ids t (combat_phase gu s b) = field_ids t b"
proof -
  have "field_ids t (fold (combat_one gu s) is b) = field_ids t b" for "is"
    by (induction "is" arbitrary: b) simp_all
  then show ?thesis by (simp add: combat_phase_def)
qed

lemma field_ids_process_turn:
  "prefix (field_ids t b) (field_ids t (snd (process_turn gu s b)))"
proof -
  have a: "field_ids t (set_player s (snd (draw_cards (get_player s b) n)) b) = field_ids t b" for n
    by (cases s; cases t) (simp_all add: field_ids_def draw_cards_def draw_def Let_def split: prod.splits)
  have b: "field_ids t (set_player s (player_add_energy (get_player s b') 1) b') = field_ids t b'" for b'
    by (cases s; cases t) (simp_all add: field_ids_def player_add_energy_def)
  have c: "field_ids t (set_player s (get_player s b'\<lparr>field := map regenerate_health (field (get_player s b'))\<rparr>) b')
           = field_ids t b'" for b'
    by (cases s; cases t) (simp_all add: field_ids_def comp_def)
  define b1 where "b1 = (if cards_remaining (player_deck (get_player s b)) > 0
                then set_player s (snd (draw_cards (get_player s b) 1)) b else b)"
  define b2 where "b2 = set_player s (player_add_energy (get_player s b1) 1) b1"
  have e1: "field_ids t b1 = field_ids t b" by (simp add: b1_def a)
  have e2: "field_ids t b2 = field_ids t b1" by (simp add: b2_def b)
  have "prefix (field_ids t b2) (field_ids t (play_phase s b2))" by (rule field_ids_play_phase)
  then have "prefix (field_ids t b) (field_ids t (process_actions gu s b2))"
    by (simp add: process_actions_def e1 e2)
  moreover have "snd (process_turn gu s b) =
      set_player s (get_player s (process_actions gu s b2)
        \<lparr>field := map regenerate_health (field (get_player s (process_actions gu s b2)))\<rparr>)
        (process_actions gu s b2)"
    by (simp add: process_turn_def Let_def b1_def b2_def)
  ultimately show ?thesis by (simp add: c)
qed

lemma prefix_simulate_battle:
  "prefix (field_ids t b) (field_ids t (snd (simulate_battle gu b)))"
proof (induction gu b rule: simulate_battle.induct)
  case (1 gu b)
  show ?case
  proof (cases "current_turn b \<le> 50")
    case False
    then show ?thesis by (subst simulate_battle.simps) simp
  next
    case True
    define b0 where "b0 = b\<lparr>placements_this_turn := [(''Player 1'', 0), (''Player 2'', 0)]\<rparr>"
    obtain won1 b1 where r1: "process_turn gu P1 b0 = (won1, b1)" by (cases "process_turn gu P1 b0")
    obtain won2 b2 where r2: "process_turn gu P2 b1 = (won2, b2)" by (cases "process_turn gu P2 b1")
    have g0: "field_ids t b0 = field_ids t b" by (cases t) (simp_all add: b0_def field_ids_def)
    have g1: "prefix (field_ids t b0) (field_ids t b1)"
      using field_ids_process_turn [of t b0 gu P1] r1 by simp
    have g2: "prefix (field_ids t b1) (field_ids t b2)"
      using field_ids_process_turn [of t b1 gu P2] r2 by simp
    have g12: "prefix (field_ids t b) (field_ids t b2)"
      using g0 g1 g2 by (metis prefix_order.order_trans)
    show ?thesis
    proof (cases won1)
      case True
      then show ?thesis using \<open>current_turn b \<le> 50\<close> r1 g0 g1
        by (subst simulate_battle.simps) (simp add: b0_def [symmetric] Let_def)
    next
      case w1: False
      show ?thesis
      proof (cases won2)
        case True
        then show ?thesis using \<open>current_turn b \<le> 50\<close> r1 r2 w1 g12
          by (subst simulate_battle.simps) (simp add: b0_def [symmetric] Let_def)
      next
        case w2: False
        have ih: "prefix (field_ids t (b2\<lparr>current_turn := current_turn b2 + 1\<rparr>))
                    (field_ids t (snd (simulate_battle gu (b2\<lparr>current_turn := current_turn b2 + 1\<rparr>))))"
          using "1.IH" [OF True b0_def refl r1 [symmetric] _ refl r2 [symmetric] _] w1 w2 by simp
        have g3: "field_ids t (b2\<lparr>current_turn := current_turn b2 + 1\<rparr>) = field_ids t b2"
          by (cases t) (simp_all add: field_ids_def)
        have "prefix (field_ids t b) (field_ids t (snd (simulate_battle gu (b2\<lparr>current_turn := current_turn b2 + 1\<rparr>))))"
          using g12 ih g3 by (metis prefix_order.order_trans)
        then show ?thesis using \<open>current_turn b \<le> 50\<close> r1 r2 w1 w2
          by (subst simulate_battle.simps) (simp add: b0_def [symmetric] Let_def)
      qed
    qed
  qed
qed

lemma struck_round:
  "map (\<lambda>c. (name c, current_health c))
     (field (player2 (play_round get_ultimate_ability opening_battle))) = [(''Cursed Doll'', 100)]
   \<and> map (\<lambda>c. (name c, current_health c)) (field (player2 struck_battle)) = [(''Cursed Doll'', 0)]
   \<and> map (\<lambda>c. (name c, current_health c))
        (field (player2 (play_round get_ultimate_ability struck_battle))) = [(''Cursed Doll'', 0)]
   \<and> \<not> no_dead_on_field (play_round get_ultimate_ability struck_battle)
   \<and> graveyards (play_round get_ultimate_ability struck_battle) = ([], [])"
  by code_simp

text \<open>
  With a lookup that finds no ability the combat of the next round does run: the character
  with 0 health is the target of Panda's attack (for 0 damage) and then attacks itself.
\<close>

lemma fallen_character_acts:
  "drop 7 (battle_log (play_round no_ultimate struck_battle))
     = [Attacks ''Panda'' ''Cursed Doll'' 0, Attacks ''Cursed Doll'' ''Panda'' 100]
   \<and> map (\<lambda>c. (name c, current_health c)) (field (player2 (play_round no_ultimate struck_battle)))
     = [(''Cursed Doll'', 0)]"
  by code_simp

text \<open>
  Claim C6. A character whose health reaches 0 stays on its owner's field and no graveyard
  receives it. In the battle of the two one-card decks Cursed Doll has health 100 after the
  first round; the strike brings it to 0; after the next round of turns it is still the one
  character on player 2's field, with health 0, and both graveyards are empty. In general,
  whatever the lookup does and from whatever state: the characters on a field when
  \<open>simulate_battle\<close> starts are, in the same order, the first characters on that field
  when it returns, and both graveyards are what they were.
\<close>

theorem fallen_character_stays_on_field:
  "map (\<lambda>c. (name c, current_health c))
     (field (player2 (play_round get_ultimate_ability opening_battle))) = [(''Cursed Doll'', 100)]
   \<and> map (\<lambda>c. (name c, current_health c)) (field (player2 struck_battle)) = [(''Cursed Doll'', 0)]
   \<and> map (\<lambda>c. (name c, current_health c))
        (field (player2 (play_round get_ultimate_ability struck_battle))) = [(''Cursed Doll'', 0)]
   \<and> \<not> no_dead_on_field (play_round get_ultimate_ability struck_battle)
   \<and> graveyards (play_round get_ultimate_ability struck_battle) = ([], [])
   \<and> prefix (field_ids t b) (field_ids t (snd (simulate_battle gu b)))
   \<and> graveyards (snd (simulate_battle gu b)) = graveyards b"
  using struck_round prefix_simulate_battle [of t b gu] graveyards_simulate_battle [of gu b]
  by blast

section \<open>Properties of a character's damage and healing\<close>

text \<open>
  Claim C9. For every character and every damage amount, after \<open>take_damage(amount)\<close> the
  current health is \<open>max(0, previous health - amount)\<close>, and the value returned is the
  previous health minus the new health.
\<close>

theorem take_damage_clamps:
  "current_health (snd (take_damage c amount)) = max 0 (current_health c - amount)
   \<and> fst (take_damage c amount) = current_health c - current_health (snd (take_damage c amount))"
  by (simp add: take_damage_def Let_def min_def max_def)

text \<open>
  Claim C10. For every character and every non-negative amount, \<open>heal(amount)\<close> leaves the
  character as it was: \<open>def_val\<close> keeps its value and no other attribute is written, so
  no health is restored.
\<close>

theorem heal_no_effect:
  "0 \<le> amount \<Longrightarrow> heal c amount = c"
  by (simp add: heal_def min_def)

theorem heal_no_effect_witness:
  "(0::int) \<le> 200 \<and>
   heal \<lparr>ident = 0, name = ''Yuji Itadori'', variant = ''Standard'', cost = 2, atk = 300,
         def_val = 400, max_health = 400, current_health = 150, effect = [],
         energy = 1, ultimate_energy_cost = 2, ultimate_damage = 300, status_effects = []\<rparr> 200
   = \<lparr>ident = 0, name = ''Yuji Itadori'', variant = ''Standard'', cost = 2, atk = 300,
         def_val = 400, max_health = 400, current_health = 150, effect = [],
         energy = 1, ultimate_energy_cost = 2, ultimate_damage = 300, status_effects = []\<rparr>"
  using heal_no_effect [of 200] by simp

section \<open>Deck construction on a pool of one card\<close>

lemma choice_mem: "xs \<noteq> [] \<Longrightarrow> choice rng k xs \<in> set xs"
  by (simp add: choice_def)

lemma choice_single [simp]: "choice rng k [x] = x"
  by (simp add: choice_def)

lemma saturated_draws [simp]: "saturated cbc (st\<lparr>draws := n\<rparr>) = saturated cbc st"
  by (simp add: saturated_def count_of_def)

lemma saturated_pick:
  assumes "cbc \<noteq> []" and "saturated cbc st"
  shows "3 \<le> count_of st (card_id_of
            (choice rng j (case map_of cbc (choice rng i (sort (map fst cbc))) of
                             None \<Rightarrow> [] | Some cs \<Rightarrow> cs)))"
proof -
  let ?k = "choice rng i (sort (map fst cbc))"
  have "set (sort (map fst cbc)) \<noteq> {}"
    using assms(1) by simp
  then have "sort (map fst cbc) \<noteq> []"
    by (metis set_empty)
  then have "?k \<in> set (sort (map fst cbc))"
    by (rule choice_mem)
  then have "?k \<in> fst ` set cbc" by simp
  then obtain cs where cs: "map_of cbc ?k = Some cs"
    by (metis map_of_eq_None_iff not_Some_eq)
  then have mem: "(?k, cs) \<in> set cbc" by (rule map_of_SomeD)
  then have "cs \<noteq> []" and all: "list_all (\<lambda>c. 3 \<le> count_of st (card_id_of c)) cs"
    using assms(2) by (auto simp add: saturated_def list_all_iff)
  then have "choice rng j cs \<in> set cs" by (intro choice_mem)
  then show ?thesis using all cs by (simp add: list_all_iff)
qed

lemma fill_rest_step:
  assumes IH: "\<And>rng um cbc size' st y. f rng um cbc size' st = Some y \<Longrightarrow> \<not> stuck cbc size' st"
    and eq: "(if length (selected_cards st) < size'
         then (let available_costs = sort (map fst cbc)
               in if available_costs = [] then Some st
                  else (let k = choice rng (draws st) available_costs;
                            cost_cards = (case map_of cbc k of None \<Rightarrow> [] | Some cs \<Rightarrow> cs);
                            c = choice rng (draws st + 1) cost_cards;
                            st1 = st\<lparr>draws := draws st + 2\<rparr>
                        in if count_of st1 (card_id_of c) < 3
                           then (case add_card um c st1 of
                                   Some st2 \<Rightarrow> f rng um cbc size' st2
                                 | None \<Rightarrow> f rng um cbc size' st1)
                           else f rng um cbc size' st1))
         else Some st) = Some y"
  shows "\<not> stuck cbc size' st"
proof
  assume stuck: "stuck cbc size' st"
  let ?st1 = "st\<lparr>draws := draws st + 2\<rparr>"
  have full: "\<not> count_of ?st1 (card_id_of
        (choice rng (draws st + 1) (case map_of cbc (choice rng (draws st) (sort (map fst cbc))) of
                         None \<Rightarrow> [] | Some cs \<Rightarrow> cs))) < 3"
    using saturated_pick [of cbc st rng "draws st + 1" "draws st"] stuck
    by (simp add: count_of_def stuck_def)
  have "set (sort (map fst cbc)) \<noteq> {}"
    using stuck by (simp add: stuck_def)
  then have ne: "sort (map fst cbc) \<noteq> []"
    by (metis set_empty)
  have "f rng um cbc size' ?st1 = Some y"
    using eq stuck full ne by (simp add: Let_def stuck_def)
  then have "\<not> stuck cbc size' ?st1"
    by (rule IH)
  then show False using stuck by (simp add: stuck_def)
qed

lemma fill_rest_stuck:
  assumes "stuck cbc size' st"
  shows "fill_rest rng um cbc size' st = None"
proof (rule ccontr)
  assume "fill_rest rng um cbc size' st \<noteq> None"
  then obtain y where y: "fill_rest rng um cbc size' st = Some y" by auto
  have "\<not> stuck cbc size' st"
    by (rule fill_rest.raw_induct
          [where P = "\<lambda>rng um cbc size' st y. \<not> stuck cbc size' st", OF _ y])
       (rule fill_rest_step)
  then show False using assms by simp
qed

lemma lone_damage: "parse_ultimate_damage um lone_card = Inr 100"
  by (simp add: parse_ultimate_damage_def lone_card_def lower_def lower_char_def ultimate_methods_def)

lemma lone_group: "group_by_cost [lone_card] = [(1, [lone_card])]"
  by (simp add: group_by_cost_def lone_card_def AList.update_def)

lemma lone_phase1:
  "card_counts (fill_distribution rng um [(1, [lone_card])]
                  \<lparr>selected_cards = [], card_counts = [], draws = 0\<rparr>) = [(card_id_of lone_card, 3)]
   \<and> length (selected_cards (fill_distribution rng um [(1, [lone_card])]
                  \<lparr>selected_cards = [], card_counts = [], draws = 0\<rparr>)) = 3"
  by (simp add: fill_distribution_def COST_DISTRIBUTION_def fill_cost.simps add_card_def count_of_def
      create_character_from_data_def lone_damage Let_def)

text \<open>
  Claim C5. Deck construction for a pool of one cost-1 card with ATK 100 and DEF 100 and the
  default deck size 40: whatever the random choices and whatever the shuffle, the build
  never returns. The distribution pass adds three copies of the card; from then on the
  fill loop draws the same card, finds its three copies and adds nothing, and the deck
  stays at three cards below the size the loop waits for.
\<close>

theorem single_card_pool_never_builds:
  "build_initial_deck rng um shuffle 40 [lone_card] = None"
proof -
  let ?st = "fill_distribution rng um [(1, [lone_card])]
               \<lparr>selected_cards = [], card_counts = [], draws = 0\<rparr>"
  have "saturated [(1, [lone_card])] ?st"
    using lone_phase1 [of rng um] by (simp add: saturated_def count_of_def)
  moreover have "length (selected_cards ?st) < 40"
    using lone_phase1 [of rng um] by simp
  ultimately have "stuck [(1, [lone_card])] 40 ?st"
    by (simp add: stuck_def)
  then have "fill_rest rng um [(1, [lone_card])] 40 ?st = None"
    by (rule fill_rest_stuck)
  then show ?thesis
    by (simp add: build_initial_deck_def lone_group Let_def)
qed

section \<open>The balance simulator: normalization, cost moves and the best table\<close>

text \<open>
  Claim C3. The cost-cap scaling pass applied twice does not give what it gives applied
  once. On the table of one card of cost 1 with ATK 100 and DEF 300 (cap 200) the pass
  halves both stats and rounds with the floor of 100: ATK 100, DEF 150, a total of 250 that
  is still over the cap. A second pass scales again and gives ATK 100, DEF 100. This holds
  for the opening pass, which also records the adjustment, and for the closing pass.
\<close>

theorem normalize_twice:
  "normalize_first 0 [top_heavy]
     = Inr ([top_heavy\<lparr>ATK := 100, DEF := 150\<rparr>],
            [\<lparr>card_idx = 0, cost_adjust = 0, atk_adjust = 0, def_adjust = - 150\<rparr>])
   \<and> normalize_first 0 [top_heavy\<lparr>ATK := 100, DEF := 150\<rparr>]
     = Inr ([top_heavy\<lparr>ATK := 100, DEF := 100\<rparr>],
            [\<lparr>card_idx = 0, cost_adjust = 0, atk_adjust = 0, def_adjust = - 50\<rparr>])
   \<and> normalize_final [top_heavy] = Inr [top_heavy\<lparr>ATK := 100, DEF := 150\<rparr>]
   \<and> normalize_final [top_heavy\<lparr>ATK := 100, DEF := 150\<rparr>]
     = Inr [top_heavy\<lparr>ATK := 100, DEF := 100\<rparr>]"
  by code_simp

text \<open>
  Claim C4. Eleven cards, all of cost 2, with the input table as the original distribution
  (cost 2 holds the whole table). Two of the cards have lost all of their ten plays. Each of
  the two cost decreases is checked alone against the table as it stands before any change
  is applied: one card moving to cost 1 shifts a share of 1/11, within the tolerance of
  1/10, so both are accepted. After \<open>adjust_card_stats\<close> the share of cost 1 is 2/11
  where the original has 0, and the share of cost 2 is 9/11 where the original has 1: both
  deviate by more than the tolerance.
\<close>

theorem cost_moves_add_up:
  "adjusted_distribution up flat_simulator weak_stats
     = Inr [(1, 2 / 11), (2, 9 / 11), (3, 0), (4, 0), (5, 0), (6, 0)]
   \<and> get_cost_distribution (original_cards flat_simulator)
     = Inr [(1, 0), (2, 1), (3, 0), (4, 0), (5, 0), (6, 0)]
   \<and> COST_DISTRIBUTION_TOLERANCE < 2 / 11"
  by code_simp


lemma adjust_card_stats_best:
  assumes "adjust_card_stats up sim stats = Inr sim'"
  shows "best_balance sim' = best_balance sim \<and> best_balance_score sim' = best_balance_score sim"
  using assms by (auto simp add: adjust_card_stats_def split: sum.splits prod.splits)

lemma iteration_step_best:
  assumes "iteration_step up its sim = Inr sim'"
    and "best_balance sim = None" and "best_balance_score sim = PosInf"
  shows "best_balance sim' = None \<and> best_balance_score sim' = PosInf"
  using assms adjust_card_stats_best [of up sim "card_stats_of its" sim']
  by (auto simp add: iteration_step_def split: if_splits sum.splits)

lemma iterations_best:
  assumes "iterations run_single up k n sim = Inr sim'"
    and "best_balance sim = None" and "best_balance_score sim = PosInf"
  shows "best_balance sim' = None"
  using assms
proof (induction n arbitrary: k sim)
  case 0
  then show ?case by simp
next
  case (Suc n)
  from Suc.prems(1) obtain sim1 where
    step: "iteration_step up (run_single k (cards_df sim)) sim = Inr sim1"
    and rest: "iterations run_single up (k + 1) n sim1 = Inr sim'"
    by (auto split: sum.splits)
  from iteration_step_best [OF step Suc.prems(2) Suc.prems(3)]
  show ?case using Suc.IH [OF rest] by simp
qed

lemma weak_iteration_score:
  "calculate_balance_score flat_simulator weak_stats = Inr 28"
  by code_simp

lemma weak_iteration_completes:
  "iterations weak_iteration up 0 1 flat_simulator \<noteq> Inl e"
  by code_simp

text \<open>
  Claim C1. Whatever the iterations produce, \<open>run_balance_iterations\<close> on a fresh
  simulator returns no table: \<open>best_balance_score\<close> starts at positive infinity and a
  score is taken as the best only when it is strictly greater, so no iteration ever
  snapshots the working table and \<open>best_balance\<close> is still \<open>None\<close> at the
  return. (With \<open>weak_iteration\<close> the one iteration scores 28 and completes without
  an error, and the result is \<open>None\<close> all the same.)
\<close>

theorem best_balance_never_set:
  "run_balance_iterations run_single up final_analysis_raises num_iterations
     (BalanceSimulator_init working_file initial_cards_df target tolerance) = None"
proof (cases "iterations run_single up 0 num_iterations
                (BalanceSimulator_init working_file initial_cards_df target tolerance)")
  case (Inl e)
  then show ?thesis by (simp add: run_balance_iterations_def)
next
  case (Inr sim')
  then have "best_balance sim' = None"
    by (rule iterations_best) (simp_all add: BalanceSimulator_init_def)
  then show ?thesis using Inr by (simp add: run_balance_iterations_def)
qed

end
